theory Spec2Isabelle
  imports Main
begin

section \<open>JavaScript strings\<close>

text \<open>
  A JavaScript string is a sequence of UTF-16 code units; every string of the program is
  modelled as the list of its code units. \<open>js\<close> turns an ASCII literal of the source into
  that representation.
\<close>

type_synonym jsstring = "nat list"

definition js :: "string \<Rightarrow> jsstring" where
  "js s = map of_char s"

text \<open>ECMAScript LineTerminator and WhiteSpace code units (the latter with category Zs).\<close>

definition isLineTerminator :: "nat \<Rightarrow> bool" where
  "isLineTerminator c = (c = 0x0A \<or> c = 0x0D \<or> c = 0x2028 \<or> c = 0x2029)"

definition isWhiteSpace :: "nat \<Rightarrow> bool" where
  "isWhiteSpace c =
     (c = 0x09 \<or> c = 0x0B \<or> c = 0x0C \<or> c = 0x20 \<or> c = 0xA0 \<or> c = 0xFEFF \<or>
      c = 0x1680 \<or> (0x2000 \<le> c \<and> c \<le> 0x200A) \<or> c = 0x202F \<or> c = 0x205F \<or> c = 0x3000)"

text \<open>The set stripped by \<open>String.prototype.trim\<close> and matched by \<open>\s\<close>.\<close>

definition isSpace :: "nat \<Rightarrow> bool" where
  "isSpace c = (isWhiteSpace c \<or> isLineTerminator c)"

definition trim :: "jsstring \<Rightarrow> jsstring" where
  "trim s = rev (dropWhile isSpace (rev (dropWhile isSpace s)))"

definition startsWith :: "jsstring \<Rightarrow> jsstring \<Rightarrow> bool" where
  "startsWith s p = (take (length p) s = p)"

definition endsWith :: "jsstring \<Rightarrow> jsstring \<Rightarrow> bool" where
  "endsWith s p = (length p \<le> length s \<and> drop (length s - length p) s = p)"

text \<open>\<open>s.includes(c)\<close> for a one-character needle.\<close>

definition includesChar :: "jsstring \<Rightarrow> nat \<Rightarrow> bool" where
  "includesChar s c = (c \<in> set s)"

text \<open>\<open>s.split(sep)\<close> for a one-character separator: never the empty list.\<close>

fun splitOn :: "nat \<Rightarrow> jsstring \<Rightarrow> jsstring list" where
  "splitOn sep [] = [[]]"
| "splitOn sep (c # cs) =
     (if c = sep then [] # splitOn sep cs
      else (case splitOn sep cs of
              [] \<Rightarrow> [[c]]
            | l # ls \<Rightarrow> (c # l) # ls))"

text \<open>lodash \<open>compact\<close> on an array of strings: the empty string is the only falsy one.\<close>

definition compact :: "jsstring list \<Rightarrow> jsstring list" where
  "compact xs = filter (\<lambda>x. x \<noteq> []) xs"

definition slice :: "jsstring \<Rightarrow> nat \<Rightarrow> nat \<Rightarrow> jsstring" where
  "slice s b e = take (e - b) (drop b s)"

section \<open>Regular expressions\<close>

text \<open>
  The regular expressions of the source are terms of \<open>regex\<close>. \<open>rmatch r s (i, c)\<close> is
  the backtracking matcher of ECMAScript started at index \<open>i\<close> of \<open>s\<close>: the list of all
  ways \<open>r\<close> can match there (end index and captures), in the order in which backtracking
  tries them, so that the head of the list is the match the engine reports. Quantifiers
  are greedy, an iteration of \<open>*\<close> that consumes nothing is rejected, and the captures of
  the groups inside a quantified atom are reset at the start of every iteration. No
  regular expression of the source carries the \<open>u\<close> flag: matching is by code unit.
\<close>

datatype regex =
    Cls "nat \<Rightarrow> bool"
  | Eps
  | Bol
  | BolM
  | Eol
  | Seq regex regex
  | Alt regex regex
  | Star regex
  | Grp nat regex

type_synonym captures = "(nat \<times> nat \<times> nat) list"

type_synonym mstate = "nat \<times> captures"

fun groupsOf :: "regex \<Rightarrow> nat list" where
  "groupsOf (Seq a b) = groupsOf a @ groupsOf b"
| "groupsOf (Alt a b) = groupsOf a @ groupsOf b"
| "groupsOf (Star a) = groupsOf a"
| "groupsOf (Grp k a) = k # groupsOf a"
| "groupsOf r = []"

function rmatch :: "regex \<Rightarrow> jsstring \<Rightarrow> mstate \<Rightarrow> mstate list" where
  "rmatch (Cls P) s (i, c) = (if i < length s \<and> P (s ! i) then [(Suc i, c)] else [])"
| "rmatch Eps s (i, c) = [(i, c)]"
| "rmatch Bol s (i, c) = (if i = 0 then [(i, c)] else [])"
| "rmatch BolM s (i, c) =
     (if i = 0 \<or> (i \<le> length s \<and> isLineTerminator (s ! (i - 1))) then [(i, c)] else [])"
| "rmatch Eol s (i, c) = (if i = length s then [(i, c)] else [])"
| "rmatch (Seq a b) s (i, c) = concat (map (rmatch b s) (rmatch a s (i, c)))"
| "rmatch (Alt a b) s (i, c) = rmatch a s (i, c) @ rmatch b s (i, c)"
| "rmatch (Star a) s (i, c) =
     concat (map (\<lambda>(j, c'). if i < j \<and> j \<le> length s then rmatch (Star a) s (j, c') else [])
                 (rmatch a s (i, filter (\<lambda>(g, be). g \<notin> set (groupsOf a)) c)))
     @ [(i, c)]"
| "rmatch (Grp k a) s (i, c) =
     map (\<lambda>(j, c'). (j, (k, i, j) # filter (\<lambda>(g, be). g \<noteq> k) c')) (rmatch a s (i, c))"
  by pat_completeness auto
termination
  by (relation "inv_image (less_than <*lex*> less_than) (\<lambda>(r, s, i, c). (size r, length s - i))")
     auto

text \<open>Atoms and derived forms: a literal character, \<open>\d\<close>, \<open>\s\<close>, \<open>\S\<close>, \<open>.\<close>, a
  bracket class given by its members, \<open>r?\<close>, \<open>r+\<close> and \<open>r{3}\<close>.\<close>

definition lit :: "char \<Rightarrow> regex" where
  "lit x = Cls (\<lambda>c. c = of_char x)"

definition digit :: regex where
  "digit = Cls (\<lambda>c. 48 \<le> c \<and> c \<le> 57)"

definition space :: regex where
  "space = Cls isSpace"

definition nonspace :: regex where
  "nonspace = Cls (\<lambda>c. \<not> isSpace c)"

definition dot :: regex where
  "dot = Cls (\<lambda>c. \<not> isLineTerminator c)"

definition oneOf :: "string \<Rightarrow> regex" where
  "oneOf xs = Cls (\<lambda>c. c \<in> set (js xs))"

definition opt :: "regex \<Rightarrow> regex" where
  "opt r = Alt r Eps"

definition plus1 :: "regex \<Rightarrow> regex" where
  "plus1 r = Seq r (Star r)"

definition rep3 :: "regex \<Rightarrow> regex" where
  "rep3 r = Seq r (Seq r r)"

text \<open>
  \<open>RegExp.prototype.exec\<close> of a regular expression without the \<open>g\<close> and \<open>y\<close> flags:
  the leftmost index at which the matcher succeeds, with the first match there.
\<close>

function execFrom :: "regex \<Rightarrow> jsstring \<Rightarrow> nat \<Rightarrow> (nat \<times> mstate) option" where
  "execFrom r s i =
     (if length s < i then None
      else case rmatch r s (i, []) of
             [] \<Rightarrow> execFrom r s (Suc i)
           | m # ms \<Rightarrow> Some (i, m))"
  by pat_completeness auto
termination
  by (relation "measure (\<lambda>(r, s, i). Suc (length s) - i)") auto

definition regexExec :: "regex \<Rightarrow> jsstring \<Rightarrow> (nat \<times> mstate) option" where
  "regexExec r s = execFrom r s 0"

declare rmatch.simps [simp del]

declare execFrom.simps [simp del]

lemma rmatch_pos_ge: "(j, c') \<in> set (rmatch r s (i, c)) \<Longrightarrow> i \<le> j"
proof (induction r s "(i, c)" arbitrary: i c j c' rule: rmatch.induct)
  case (6 a b s i c)
  from "6.prems" obtain k d where kd: "(k, d) \<in> set (rmatch a s (i, c))"
    and j: "(j, c') \<in> set (rmatch b s (k, d))" by (auto simp: rmatch.simps(6))
  from "6.hyps"(1)[OF kd] have "i \<le> k" .
  moreover from "6.hyps"(2)[OF kd j] have "k \<le> j" .
  ultimately show ?case by simp
next
  case (8 a s i c)
  show ?case
  proof (cases "(j, c') = (i, c)")
    case True then show ?thesis by simp
  next
    case False
    from "8.prems" have "(j, c') \<in> set (concat (map (\<lambda>(j, c'). if i < j \<and> j \<le> length s then rmatch (Star a) s (j, c') else [])
                 (rmatch a s (i, filter (\<lambda>(g, be). g \<notin> set (groupsOf a)) c))) @ [(i, c)])"
      by (subst (asm) rmatch.simps(8))
    with False obtain k d where kd: "(k, d) \<in> set (rmatch a s (i, filter (\<lambda>(g, be). g \<notin> set (groupsOf a)) c))"
      and j: "i < k" "k \<le> length s" "(j, c') \<in> set (rmatch (Star a) s (k, d))"
      by (auto split: if_splits)
    from "8.hyps"(2) kd j have "k \<le> j" by blast
    with j show ?thesis by simp
  qed
next
  case (7 a b s i c)
  then show ?case by (auto simp: rmatch.simps(7))
next
  case (9 k a s i c)
  then show ?case by (auto simp: rmatch.simps(9))
qed (auto simp: rmatch.simps split: if_splits)

text \<open>
  \<open>String.prototype.match\<close> with a regular expression that carries the \<open>g\<close> flag: all
  matches from left to right, \<open>lastIndex\<close> moving to the end of each match and one
  further after an empty match.
\<close>

function matchAllFrom :: "regex \<Rightarrow> jsstring \<Rightarrow> nat \<Rightarrow> jsstring list" where
  "matchAllFrom r s i =
     (if length s < i then []
      else case rmatch r s (i, []) of
             [] \<Rightarrow> matchAllFrom r s (Suc i)
           | (e, c) # ms \<Rightarrow> slice s i e # matchAllFrom r s (if e = i then Suc i else e))"
  by pat_completeness auto
termination matchAllFrom
proof (relation "measure (\<lambda>(r, s, i). Suc (length s) - i)", goal_cases)
  case 1
  show ?case by simp
next
  case (2 r s i)
  then show ?case by simp
next
  case (3 r s i m ms e c)
  then have "(e, c) \<in> set (rmatch r s (i, []))" by simp
  then have "i \<le> e" by (rule rmatch_pos_ge)
  with 3 show ?case by auto
qed

declare matchAllFrom.simps [simp del]

text \<open>
  \<open>String.prototype.replaceAll\<close> with a \<open>g\<close> regular expression and a callback: \<open>f s c i e\<close>
  is the replacement for the match of \<open>s\<close> from \<open>i\<close> to \<open>e\<close> with captures \<open>c\<close>.
  \<open>replaceFirst\<close> is \<open>String.prototype.replace\<close> with a regular expression without
  the \<open>g\<close> flag and a constant replacement.
\<close>

function replaceAllFrom ::
  "regex \<Rightarrow> (jsstring \<Rightarrow> captures \<Rightarrow> nat \<Rightarrow> nat \<Rightarrow> jsstring) \<Rightarrow> jsstring \<Rightarrow> nat \<Rightarrow> jsstring" where
  "replaceAllFrom r f s i =
     (if length s < i then []
      else case rmatch r s (i, []) of
             [] \<Rightarrow> (if i < length s then s ! i # replaceAllFrom r f s (Suc i) else [])
           | (e, c) # ms \<Rightarrow>
               f s c i e @
               (if e = i then (if i < length s then [s ! i] else []) @ replaceAllFrom r f s (Suc i)
                else replaceAllFrom r f s e))"
  by pat_completeness auto
termination replaceAllFrom
proof (relation "measure (\<lambda>(r, f, s, i). Suc (length s) - i)", goal_cases)
  case 1
  show ?case by simp
next
  case (2 r f s i)
  then show ?case by simp
next
  case (3 r f s i m ms e c)
  then show ?case by simp
next
  case (4 r f s i m ms e c)
  then have "(e, c) \<in> set (rmatch r s (i, []))" by simp
  then have "i \<le> e" by (rule rmatch_pos_ge)
  with 4 show ?case by auto
qed

declare replaceAllFrom.simps [simp del]

definition replaceFirst :: "regex \<Rightarrow> jsstring \<Rightarrow> jsstring \<Rightarrow> jsstring" where
  "replaceFirst r new s =
     (case regexExec r s of
        None \<Rightarrow> s
      | Some (b, (e, c)) \<Rightarrow> take b s @ new @ drop e s)"

text \<open>The text of capture group \<open>k\<close>, \<open>None\<close> when the group did not take part.\<close>

definition capture :: "jsstring \<Rightarrow> captures \<Rightarrow> nat \<Rightarrow> jsstring option" where
  "capture s c k = (case map_of c k of None \<Rightarrow> None | Some (b, e) \<Rightarrow> Some (slice s b e))"

section \<open>The program's data, its faults and its collaborators\<close>

text \<open>The result of one \<open>GitProcess.exec\<close> call (dugite).\<close>

record execResult =
  exitCode :: int
  stdout :: jsstring
  stderr :: jsstring

text \<open>
  \<open>IGitUserInfos\<close> and the default git information. A field the source reads with \<open>??\<close>
  or compares with \<open>undefined\<close> is an \<open>option\<close>.
\<close>

record gitUserInfosWithoutToken =
  email :: "jsstring option"
  gitUserName :: jsstring
  branch :: jsstring

record gitUserInfos = gitUserInfosWithoutToken +
  accessToken :: "jsstring option"

record gitInfo = gitUserInfosWithoutToken +
  remote :: jsstring

text \<open>The \<open>options\<close> argument of \<open>commitAndSync\<close>; \<open>logger\<close> records whether one was passed.\<close>

record options =
  dir :: jsstring
  remoteUrl :: "jsstring option"
  userInfo :: "gitUserInfos option"
  commitMessage :: "jsstring option"
  logger :: bool
  defaultGitInfo :: "gitInfo option"
  filesToIgnore :: "jsstring list option"

text \<open>
  What the message of a \<open>GitPullPushError\<close> serialises: the configuration it was given,
  with \<open>userInfo.accessToken\<close> overwritten by the truncated token.
\<close>

record reportedConfiguration =
  reportedDir :: jsstring
  reportedRemoteUrl :: "jsstring option"
  reportedUserInfo :: "gitUserInfosWithoutToken option"
  reportedAccessToken :: jsstring
  reportedCommitMessage :: "jsstring option"
  reportedDefaultGitInfo :: "gitInfo option"
  reportedFilesToIgnore :: "jsstring list option"

text \<open>
  errors.ts: the error classes with the data their constructors receive. \<open>URIError\<close> is
  the built-in thrown by \<open>decodeURIComponent\<close>; \<open>Rejected\<close> stands for any other rejection
  of a collaborator (dugite rejects when the working directory is missing).
\<close>

datatype error =
    AssumeSyncError jsstring
  | SyncParameterMissingError jsstring
  | GitPullPushError reportedConfiguration jsstring
  | CantSyncGitNotInitializedError jsstring
  | SyncScriptIsInDeadLoopError
  | CantSyncInSpecialGitStateAutoFixFailed jsstring
  | URIError
  | Rejected jsstring

text \<open>The calls a run makes to its collaborators, in the order it makes them.\<close>

datatype call =
    GitExec "jsstring list" jsstring
  | FsLstat jsstring
  | CredentialOn jsstring jsstring jsstring jsstring
  | CredentialOff jsstring jsstring
  | ContinueRebase jsstring jsstring "jsstring option" "jsstring option"
  | CommitFiles jsstring jsstring "jsstring option" jsstring "jsstring list option"

datatype fileKind = File | Directory | OtherKind

text \<open>
  The collaborators of the code, over a state of the outside world \<open>'w\<close> (the repository,
  the file system, the remote): the git binary behind \<open>GitProcess.exec\<close>, \<open>fs.lstat\<close>
  (\<open>None\<close> when it rejects), Node's \<open>path\<close> module, \<open>String.prototype.localeCompare\<close> for
  the locale \<open>zh\<close>, lodash's \<open>stringToArray\<close> (the split of a string into the symbols that
  \<open>truncate\<close> counts when the string has characters beyond the plain ones), the functions of
  credential.ts and sync.ts that \<open>commitAndSync\<close> imports (their sources are not part of
  the sources at hand), and the constant of defaultGitInfo.ts.
\<close>

record 'w env =
  gitExec :: "jsstring list \<Rightarrow> jsstring \<Rightarrow> 'w \<Rightarrow> (error + execResult) \<times> 'w"
  fsLstat :: "jsstring \<Rightarrow> 'w \<Rightarrow> fileKind option"
  pathJoin :: "jsstring list \<Rightarrow> jsstring"
  pathResolve :: "jsstring \<Rightarrow> jsstring \<Rightarrow> jsstring"
  pathDirname :: "jsstring \<Rightarrow> jsstring"
  localeCompareZh :: "jsstring \<Rightarrow> jsstring \<Rightarrow> int"
  lodashStringToArray :: "jsstring \<Rightarrow> jsstring list"
  envCredentialOn :: "jsstring \<Rightarrow> jsstring \<Rightarrow> jsstring \<Rightarrow> jsstring \<Rightarrow> 'w \<Rightarrow> (error + unit) \<times> 'w"
  envCredentialOff :: "jsstring \<Rightarrow> jsstring \<Rightarrow> 'w \<Rightarrow> (error + unit) \<times> 'w"
  envContinueRebase ::
    "jsstring \<Rightarrow> jsstring \<Rightarrow> jsstring option \<Rightarrow> jsstring option \<Rightarrow> 'w \<Rightarrow> (error + unit) \<times> 'w"
  envCommitFiles ::
    "jsstring \<Rightarrow> jsstring \<Rightarrow> jsstring option \<Rightarrow> jsstring \<Rightarrow> jsstring list option \<Rightarrow> 'w
       \<Rightarrow> (error + execResult) \<times> 'w"
  defaultDefaultGitInfo :: gitInfo

text \<open>
  An asynchronous function of the source is a function from the state (the world and the
  calls made so far) to a result or a thrown error, and the new state. \<open>await\<close> in sequence
  is \<open>bnd\<close>, \<open>throw\<close> is \<open>throw\<close>, \<open>try ... catch\<close> is \<open>tryCatch\<close>.
\<close>

type_synonym ('w, 'a) io = "'w \<times> call list \<Rightarrow> (error + 'a) \<times> 'w \<times> call list"

definition ret :: "'a \<Rightarrow> ('w, 'a) io" where
  "ret x = (\<lambda>st. (Inr x, st))"

definition throw :: "error \<Rightarrow> ('w, 'a) io" where
  "throw e = (\<lambda>st. (Inl e, st))"

definition bnd :: "('w, 'a) io \<Rightarrow> ('a \<Rightarrow> ('w, 'b) io) \<Rightarrow> ('w, 'b) io" where
  "bnd m f = (\<lambda>st. case m st of (Inl e, st') \<Rightarrow> (Inl e, st') | (Inr x, st') \<Rightarrow> f x st')"

definition tryCatch :: "('w, 'a) io \<Rightarrow> (error \<Rightarrow> ('w, 'a) io) \<Rightarrow> ('w, 'a) io" where
  "tryCatch m h = (\<lambda>st. case m st of (Inl e, st') \<Rightarrow> h e st' | (Inr x, st') \<Rightarrow> (Inr x, st'))"

text \<open>A call of a collaborator that changes the world: it is recorded, then made.\<close>

definition perform :: "call \<Rightarrow> ('w \<Rightarrow> (error + 'a) \<times> 'w) \<Rightarrow> ('w, 'a) io" where
  "perform c f = (\<lambda>(w, tr). case f w of (r, w') \<Rightarrow> (r, (w', tr @ [c])))"

definition GitProcess_exec :: "'w env \<Rightarrow> jsstring list \<Rightarrow> jsstring \<Rightarrow> ('w, execResult) io" where
  "GitProcess_exec env args d = perform (GitExec args d) (gitExec env args d)"

text \<open>
  \<open>((await fs.lstat(p).catch(() => ({}))) as fs.Stats)?.isFile?.()\<close> and the same with
  \<open>isDirectory\<close>: a rejected \<open>lstat\<close> gives \<open>{}\<close>, whose \<open>isFile\<close> is undefined, which is
  falsy.
\<close>

definition lstatIsFile :: "'w env \<Rightarrow> jsstring \<Rightarrow> ('w, bool) io" where
  "lstatIsFile env p = perform (FsLstat p) (\<lambda>w. (Inr (fsLstat env p w = Some File), w))"

definition lstatIsDirectory :: "'w env \<Rightarrow> jsstring \<Rightarrow> ('w, bool) io" where
  "lstatIsDirectory env p = perform (FsLstat p) (\<lambda>w. (Inr (fsLstat env p w = Some Directory), w))"

definition credentialOnCall ::
  "'w env \<Rightarrow> jsstring \<Rightarrow> jsstring \<Rightarrow> jsstring \<Rightarrow> jsstring \<Rightarrow> ('w, unit) io" where
  "credentialOnCall env d url user token =
     perform (CredentialOn d url user token) (envCredentialOn env d url user token)"

definition credentialOffCall :: "'w env \<Rightarrow> jsstring \<Rightarrow> jsstring \<Rightarrow> ('w, unit) io" where
  "credentialOffCall env d name = perform (CredentialOff d name) (envCredentialOff env d name)"

definition continueRebase ::
  "'w env \<Rightarrow> jsstring \<Rightarrow> jsstring \<Rightarrow> jsstring option \<Rightarrow> jsstring option \<Rightarrow> ('w, unit) io" where
  "continueRebase env d user mail st =
     perform (ContinueRebase d user mail st) (envContinueRebase env d user mail st)"

definition commitFiles ::
  "'w env \<Rightarrow> jsstring \<Rightarrow> jsstring \<Rightarrow> jsstring option \<Rightarrow> jsstring \<Rightarrow> jsstring list option
     \<Rightarrow> ('w, execResult) io" where
  "commitFiles env d user mail msg ign =
     perform (CommitFiles d user mail msg ign) (envCommitFiles env d user mail msg ign)"

section \<open>inspect.ts\<close>

subsection \<open>getRemoteName\<close>

text \<open>\<open>if (stdout.trim())\<close>: a string is truthy when it is not empty.\<close>

definition getRemoteName :: "'w env \<Rightarrow> jsstring \<Rightarrow> jsstring \<Rightarrow> ('w, jsstring) io" where
  "getRemoteName env d br =
     bnd (GitProcess_exec env [js ''config'', js ''--get'', js ''branch.'' @ br @ js ''.pushRemote''] d)
       (\<lambda>r1. if trim (stdout r1) \<noteq> [] then ret (trim (stdout r1))
         else bnd (GitProcess_exec env [js ''config'', js ''--get'', js ''remote.pushDefault''] d)
           (\<lambda>r2. if trim (stdout r2) \<noteq> [] then ret (trim (stdout r2))
             else bnd (GitProcess_exec env [js ''config'', js ''--get'', js ''branch.'' @ br @ js ''.remote''] d)
               (\<lambda>r3. if trim (stdout r3) \<noteq> [] then ret (trim (stdout r3))
                 else ret (js ''origin''))))"

subsection \<open>getSyncState and assumeSync\<close>

text \<open>
  The value of \<open>SyncState\<close> is one of five string literals. \<open>syncStateOfStdout\<close> is the
  part of \<open>getSyncState\<close> that reads the output of
  \<open>git rev-list --count --left-right <remote>/<branch>...HEAD\<close>, with the three regular
  expressions \<open>/0\t0/\<close>, \<open>/0\t\d+/\<close> and \<open>/\d+\t0/\<close> in the order of the source.
\<close>

definition syncStateOfStdout :: "jsstring \<Rightarrow> jsstring" where
  "syncStateOfStdout out =
     (if out = [] then js ''noUpstreamOrBareUpstream''
      else if regexExec (Seq (lit CHR ''0'') (Seq (lit (CHR 0x09)) (lit CHR ''0''))) out \<noteq> None
        then js ''equal''
      else if regexExec (Seq (lit CHR ''0'') (Seq (lit (CHR 0x09)) (plus1 digit))) out \<noteq> None
        then js ''ahead''
      else if regexExec (Seq (plus1 digit) (Seq (lit (CHR 0x09)) (lit CHR ''0''))) out \<noteq> None
        then js ''behind''
      else js ''diverged'')"

text \<open>What \<open>git rev-list --count --left-right\<close> prints for the counts \<open>left\<close> (commits only
  on the remote side) and \<open>right\<close> (commits only on the local side): the two decimal
  numbers, a tab between them, a newline after them.\<close>

fun decimal :: "nat \<Rightarrow> jsstring" where
  "decimal n = (if n < 10 then [48 + n] else decimal (n div 10) @ [48 + n mod 10])"

definition revListOutput :: "nat \<Rightarrow> nat \<Rightarrow> jsstring" where
  "revListOutput left right = decimal left @ [0x09] @ decimal right @ [0x0A]"

text \<open>\<open>getSyncState(dir, defaultBranchName, remoteName)\<close>; \<open>remoteName\<close> is \<open>None\<close> when the
  caller passes \<open>undefined\<close>. The logger only receives messages and is left out.\<close>

definition getSyncState ::
  "'w env \<Rightarrow> jsstring \<Rightarrow> jsstring \<Rightarrow> jsstring option \<Rightarrow> ('w, jsstring) io" where
  "getSyncState env d defaultBranchName remoteName =
     bnd (case remoteName of Some r \<Rightarrow> ret r | None \<Rightarrow> getRemoteName env d defaultBranchName)
       (\<lambda>remoteName'.
         bnd (GitProcess_exec env
                [js ''rev-list'', js ''--count'', js ''--left-right'',
                 remoteName' @ js ''/'' @ defaultBranchName @ js ''...HEAD''] d)
           (\<lambda>r. ret (syncStateOfStdout (stdout r))))"

definition assumeSync ::
  "'w env \<Rightarrow> jsstring \<Rightarrow> jsstring \<Rightarrow> jsstring option \<Rightarrow> ('w, unit) io" where
  "assumeSync env wikiFolderPath defaultBranchName remoteName =
     bnd (getSyncState env wikiFolderPath defaultBranchName remoteName)
       (\<lambda>syncState. if syncState = js ''equal'' then ret () else throw (AssumeSyncError syncState))"

subsection \<open>haveLocalChanges\<close>

text \<open>
  \<open>stdout.match(/^(\?\?|[ACMR] |[ ACMR][DM])*/gm)\<close> and \<open>!!matchResult?.some?.(Boolean)\<close>:
  some match is not the empty string.
\<close>

definition statusCode :: regex where
  "statusCode =
     Alt (Seq (lit CHR ''?'') (lit CHR ''?''))
       (Alt (Seq (oneOf ''ACMR'') (lit CHR '' ''))
            (Seq (oneOf '' ACMR'') (oneOf ''DM'')))"

definition localChangesRegex :: regex where
  "localChangesRegex = Seq BolM (Star (Grp 1 statusCode))"

definition haveLocalChangesOfStdout :: "jsstring \<Rightarrow> bool" where
  "haveLocalChangesOfStdout out = list_ex (\<lambda>m. m \<noteq> []) (matchAllFrom localChangesRegex out 0)"

definition haveLocalChanges :: "'w env \<Rightarrow> jsstring \<Rightarrow> ('w, bool) io" where
  "haveLocalChanges env wikiFolderPath =
     bnd (GitProcess_exec env [js ''status'', js ''--porcelain''] wikiFolderPath)
       (\<lambda>r. ret (haveLocalChangesOfStdout (stdout r)))"

subsection \<open>getDefaultBranchName\<close>

definition getDefaultBranchName :: "'w env \<Rightarrow> jsstring \<Rightarrow> ('w, jsstring option) io" where
  "getDefaultBranchName env wikiFolderPath =
     tryCatch
       (bnd (GitProcess_exec env [js ''rev-parse'', js ''--abbrev-ref'', js ''HEAD''] wikiFolderPath)
          (\<lambda>r. case splitOn 0x0A (stdout r) of
                  [] \<Rightarrow> ret None
                | branchName # others \<Rightarrow> if branchName = [] then ret None else ret (Some branchName)))
       (\<lambda>e. ret None)"

subsection \<open>getGitDirectory and hasGit\<close>

definition getGitDirectory :: "'w env \<Rightarrow> jsstring \<Rightarrow> ('w, jsstring) io" where
  "getGitDirectory env d =
     bnd (GitProcess_exec env [js ''rev-parse'', js ''--is-inside-work-tree'', d] d)
       (\<lambda>r. if length (stderr r) > 0 then throw (CantSyncGitNotInitializedError d)
         else if startsWith (stdout r) (js ''true'')
           then bnd (GitProcess_exec env [js ''rev-parse'', js ''--git-dir'', d] d)
             (\<lambda>r2. case compact (splitOn 0x0A (stdout r2)) of
                      gitPath2 # gitPath1 # others \<Rightarrow> ret (pathResolve env gitPath1 gitPath2)
                    | other \<Rightarrow> throw (CantSyncGitNotInitializedError d))
         else throw (CantSyncGitNotInitializedError d))"

text \<open>\<open>hasGit(dir, strict = true)\<close>: an error that is not a
  \<open>CantSyncGitNotInitializedError\<close> is caught and dropped, and the function returns true.\<close>

definition hasGit :: "'w env \<Rightarrow> jsstring \<Rightarrow> bool \<Rightarrow> ('w, bool) io" where
  "hasGit env d strict =
     tryCatch
       (bnd (getGitDirectory env d)
          (\<lambda>resultDir. if strict \<and> pathDirname env resultDir \<noteq> d then ret False else ret True))
       (\<lambda>e. case e of CantSyncGitNotInitializedError x \<Rightarrow> ret False | other \<Rightarrow> ret True)"

subsection \<open>getGitRepositoryState\<close>

text \<open>The six probes of the git directory, in the order of the array of the source.\<close>

definition probeMarkers ::
  "'w env \<Rightarrow> jsstring \<Rightarrow> ('w, bool \<times> bool \<times> bool \<times> bool \<times> bool \<times> bool) io" where
  "probeMarkers env gitDirectory =
     bnd (lstatIsFile env (pathJoin env [gitDirectory, js ''rebase-merge'', js ''interactive'']))
       (\<lambda>isRebaseI.
     bnd (lstatIsDirectory env (pathJoin env [gitDirectory, js ''rebase-merge'']))
       (\<lambda>isRebaseM.
     bnd (lstatIsDirectory env (pathJoin env [gitDirectory, js ''rebase-apply'']))
       (\<lambda>isAMRebase.
     bnd (lstatIsFile env (pathJoin env [gitDirectory, js ''MERGE_HEAD'']))
       (\<lambda>isMerging.
     bnd (lstatIsFile env (pathJoin env [gitDirectory, js ''CHERRY_PICK_HEAD'']))
       (\<lambda>isCherryPicking.
     bnd (lstatIsFile env (pathJoin env [gitDirectory, js ''BISECT_LOG'']))
       (\<lambda>isBisecting.
     ret (isRebaseI, isRebaseM, isAMRebase, isMerging, isCherryPicking, isBisecting)))))))"

text \<open>The \<open>if\<close> chain that builds \<open>result\<close> from the six flags.\<close>

definition interruptedOperation ::
  "bool \<times> bool \<times> bool \<times> bool \<times> bool \<times> bool \<Rightarrow> jsstring" where
  "interruptedOperation flags =
     (case flags of (isRebaseI, isRebaseM, isAMRebase, isMerging, isCherryPicking, isBisecting) \<Rightarrow>
        if isRebaseI then js ''REBASE-i''
        else if isRebaseM then js ''REBASE-m''
        else (if isAMRebase then js ''AM/REBASE'' else [])
           @ (if isMerging then js ''MERGING'' else [])
           @ (if isCherryPicking then js ''CHERRY-PICKING'' else [])
           @ (if isBisecting then js ''BISECTING'' else []))"

definition getGitRepositoryState :: "'w env \<Rightarrow> jsstring \<Rightarrow> ('w, jsstring) io" where
  "getGitRepositoryState env wikiFolderPath =
     bnd (hasGit env wikiFolderPath True)
       (\<lambda>has. if \<not> has then ret (js ''NOGIT'')
         else
     bnd (getGitDirectory env wikiFolderPath)
       (\<lambda>gitDirectory.
     bnd (probeMarkers env gitDirectory)
       (\<lambda>flags.
     bnd (GitProcess_exec env [js ''rev-parse'', js ''--is-bare-repository'', wikiFolderPath]
            wikiFolderPath)
       (\<lambda>bare.
     bnd (haveLocalChanges env wikiFolderPath)
       (\<lambda>dirty.
     ret (interruptedOperation flags
            @ (if startsWith (stdout bare) (js ''true'') then js ''|BARE'' else [])
            @ (if dirty then js ''|DIRTY'' else [])))))))"

subsection \<open>getModifiedFileList\<close>

text \<open>
  \<open>Number.parseInt($1, 8)\<close> on a string of decimal digits (the longest prefix of octal
  digits, \<open>NaN\<close> as \<open>None\<close> when it is empty) and \<open>Number.prototype.toString(16)\<close>.
\<close>

definition parseInt8 :: "jsstring \<Rightarrow> nat option" where
  "parseInt8 s =
     (let ds = takeWhile (\<lambda>c. 48 \<le> c \<and> c \<le> 55) s
      in if ds = [] then None else Some (foldl (\<lambda>a c. 8 * a + (c - 48)) 0 ds))"

fun toString16 :: "nat \<Rightarrow> jsstring" where
  "toString16 n =
     (if n < 16 then [if n < 10 then 48 + n else 87 + n]
      else toString16 (n div 16) @ [if n mod 16 < 10 then 48 + n mod 16 else 87 + n mod 16])"

declare toString16.simps [simp del]

definition numberToString16 :: "nat option \<Rightarrow> jsstring" where
  "numberToString16 v = (case v of None \<Rightarrow> js ''NaN'' | Some n \<Rightarrow> toString16 n)"

text \<open>\<open>str.replaceAll(/\\(\d{3})/g, (_, $1) => `%${Number.parseInt($1, 8).toString(16)}`)\<close>\<close>

definition gitEscapeRegex :: regex where
  "gitEscapeRegex = Seq (lit (CHR 0x5C)) (Grp 1 (rep3 digit))"

definition gitEscapeToEncodedUri :: "jsstring \<Rightarrow> jsstring" where
  "gitEscapeToEncodedUri str =
     replaceAllFrom gitEscapeRegex
       (\<lambda>s c i e. 0x25 # numberToString16 (parseInt8 (case capture s c 1 of None \<Rightarrow> [] | Some g \<Rightarrow> g)))
       str 0"

text \<open>
  \<open>decodeURIComponent\<close> (ECMA-262, Decode with an empty set of preserved escapes): a
  \<open>%\<close> must be followed by two hexadecimal digits; an octet below 128 is that character;
  an octet with \<open>n\<close> leading one bits, \<open>n\<close> from 2 to 4, starts a sequence of \<open>n\<close> escaped
  octets that must be the UTF-8 encoding of a code point, appended in UTF-16; anything
  else throws \<open>URIError\<close>.
\<close>

definition hexValue :: "nat \<Rightarrow> nat option" where
  "hexValue c =
     (if 48 \<le> c \<and> c \<le> 57 then Some (c - 48)
      else if 65 \<le> c \<and> c \<le> 70 then Some (c - 55)
      else if 97 \<le> c \<and> c \<le> 102 then Some (c - 87)
      else None)"

definition parseHexOctet :: "nat \<Rightarrow> nat \<Rightarrow> nat option" where
  "parseHexOctet h l =
     (case hexValue h of
        None \<Rightarrow> None
      | Some a \<Rightarrow> (case hexValue l of None \<Rightarrow> None | Some b \<Rightarrow> Some (16 * a + b)))"

definition leadingOnes :: "nat \<Rightarrow> nat" where
  "leadingOnes b =
     (if b < 128 then 0 else if b < 192 then 1 else if b < 224 then 2
      else if b < 240 then 3 else if b < 248 then 4 else 5)"

fun continuationBytes :: "nat \<Rightarrow> jsstring \<Rightarrow> (nat list \<times> jsstring) option" where
  "continuationBytes 0 s = Some ([], s)"
| "continuationBytes (Suc n) (p # h # l # s) =
     (if p = 0x25
      then (case parseHexOctet h l of
              None \<Rightarrow> None
            | Some b \<Rightarrow> (case continuationBytes n s of
                          None \<Rightarrow> None
                        | Some (bs, s') \<Rightarrow> Some (b # bs, s')))
      else None)"
| "continuationBytes (Suc n) s = None"

definition isContinuation :: "nat \<Rightarrow> bool" where
  "isContinuation b = (128 \<le> b \<and> b < 192)"

definition utf8CodePoint :: "nat list \<Rightarrow> nat option" where
  "utf8CodePoint bs =
     (case bs of
        [b0, b1] \<Rightarrow>
          (let v = (b0 mod 32) * 64 + b1 mod 64
           in if isContinuation b1 \<and> 0x80 \<le> v then Some v else None)
      | [b0, b1, b2] \<Rightarrow>
          (let v = (b0 mod 16) * 4096 + (b1 mod 64) * 64 + b2 mod 64
           in if isContinuation b1 \<and> isContinuation b2 \<and> 0x800 \<le> v \<and> \<not> (0xD800 \<le> v \<and> v \<le> 0xDFFF)
              then Some v else None)
      | [b0, b1, b2, b3] \<Rightarrow>
          (let v = (b0 mod 8) * 262144 + (b1 mod 64) * 4096 + (b2 mod 64) * 64 + b3 mod 64
           in if isContinuation b1 \<and> isContinuation b2 \<and> isContinuation b3 \<and> 0x10000 \<le> v \<and> v \<le> 0x10FFFF
              then Some v else None)
      | other \<Rightarrow> None)"

definition utf16Encode :: "nat \<Rightarrow> jsstring" where
  "utf16Encode v =
     (if v < 0x10000 then [v]
      else [0xD800 + (v - 0x10000) div 1024, 0xDC00 + (v - 0x10000) mod 1024])"

lemma continuationBytes_length:
  "continuationBytes n s = Some (bs, s') \<Longrightarrow> length s' \<le> length s"
  by (induction n s arbitrary: bs s' rule: continuationBytes.induct)
     (fastforce split: if_splits option.splits)+

function decodeURIComponent :: "jsstring \<Rightarrow> error + jsstring" where
  "decodeURIComponent [] = Inr []"
| "decodeURIComponent (c # s) =
     (if c \<noteq> 0x25
      then (case decodeURIComponent s of Inl e \<Rightarrow> Inl e | Inr r \<Rightarrow> Inr (c # r))
      else (case s of
              h # l # s' \<Rightarrow>
                (case parseHexOctet h l of
                   None \<Rightarrow> Inl URIError
                 | Some b \<Rightarrow>
                     if leadingOnes b = 0
                     then (case decodeURIComponent s' of Inl e \<Rightarrow> Inl e | Inr r \<Rightarrow> Inr (b # r))
                     else if leadingOnes b = 1 \<or> 4 < leadingOnes b then Inl URIError
                     else (case continuationBytes (leadingOnes b - 1) s' of
                             None \<Rightarrow> Inl URIError
                           | Some (bs, s'') \<Rightarrow>
                               (case utf8CodePoint (b # bs) of
                                  None \<Rightarrow> Inl URIError
                                | Some v \<Rightarrow>
                                    (case decodeURIComponent s'' of
                                       Inl e \<Rightarrow> Inl e
                                     | Inr r \<Rightarrow> Inr (utf16Encode v @ r)))))
            | other \<Rightarrow> Inl URIError))"
  by pat_completeness auto
termination decodeURIComponent
proof (relation "measure length", goal_cases)
  case 1
  show ?case by simp
next
  case (2 c s)
  then show ?case by simp
next
  case (3 c s h t l s' b)
  then show ?case by simp
next
  case (4 c s h t l s' b x bs s'')
  then have "length s'' \<le> length s'" by (auto dest: continuationBytes_length)
  with 4 show ?case by simp
qed

declare decodeURIComponent.simps [simp del]

definition decodeGitEscape :: "jsstring \<Rightarrow> error + jsstring" where
  "decodeGitEscape rawString = decodeURIComponent (gitEscapeToEncodedUri rawString)"

record ModifiedFileList =
  filePath :: jsstring
  fileRelativePath :: jsstring
  fileType :: jsstring

text \<open>\<open>/^\s?(\?\?|[ACMR]|[ACMR][DM])\s?(\S+.*\S+)$/.exec(line)\<close>, and the filter that keeps
  a match when both groups are defined.\<close>

definition statusLineRegex :: regex where
  "statusLineRegex =
     Seq Bol (Seq (opt space)
       (Seq (Grp 1 (Alt (Seq (lit CHR ''?'') (lit CHR ''?''))
                     (Alt (oneOf ''ACMR'') (Seq (oneOf ''ACMR'') (oneOf ''DM'')))))
         (Seq (opt space)
           (Seq (Grp 2 (Seq (plus1 nonspace) (Seq (Star dot) (plus1 nonspace)))) Eol))))"

definition parseStatusLine :: "jsstring \<Rightarrow> (jsstring \<times> jsstring) option" where
  "parseStatusLine line =
     (case regexExec statusLineRegex line of
        None \<Rightarrow> None
      | Some (b, (e, c)) \<Rightarrow>
          (case capture line c 1 of
             None \<Rightarrow> None
           | Some ty \<Rightarrow> (case capture line c 2 of None \<Rightarrow> None | Some raw \<Rightarrow> Some (ty, raw))))"

text \<open>The body of the \<open>map\<close> callback: \<open>isSafeUtf8UnescapedString\<close> and the decoding, with
  \<open>.replace(/^"/, '').replace(/"$/, '')\<close> after it.\<close>

definition isSafeUtf8UnescapedString :: "jsstring \<Rightarrow> bool" where
  "isSafeUtf8UnescapedString raw =
     (startsWith raw [0x22] \<and> endsWith raw [0x22] \<and> \<not> includesChar raw 0x3B \<and> \<not> includesChar raw 0x2C)"

definition decodeFileRelativePath :: "jsstring \<Rightarrow> error + jsstring" where
  "decodeFileRelativePath rawFileRelativePath =
     (if isSafeUtf8UnescapedString rawFileRelativePath
      then (case decodeGitEscape rawFileRelativePath of
              Inl e \<Rightarrow> Inl e
            | Inr d \<Rightarrow>
                Inr (replaceFirst (Seq (lit (CHR 0x22)) Eol) []
                       (replaceFirst (Seq Bol (lit (CHR 0x22))) [] d)))
      else Inr rawFileRelativePath)"

text \<open>\<open>Array.prototype.map\<close> with a callback that may throw, and the stable
  \<open>Array.prototype.sort\<close> with a comparator.\<close>

fun mapResult :: "('a \<Rightarrow> error + 'b) \<Rightarrow> 'a list \<Rightarrow> error + 'b list" where
  "mapResult f [] = Inr []"
| "mapResult f (x # xs) =
     (case f x of
        Inl e \<Rightarrow> Inl e
      | Inr y \<Rightarrow> (case mapResult f xs of Inl e \<Rightarrow> Inl e | Inr ys \<Rightarrow> Inr (y # ys)))"

fun insertSorted :: "('a \<Rightarrow> 'a \<Rightarrow> int) \<Rightarrow> 'a \<Rightarrow> 'a list \<Rightarrow> 'a list" where
  "insertSorted cmp x [] = [x]"
| "insertSorted cmp x (y # ys) =
     (if cmp x y \<le> 0 then x # y # ys else y # insertSorted cmp x ys)"

definition sortWith :: "('a \<Rightarrow> 'a \<Rightarrow> int) \<Rightarrow> 'a list \<Rightarrow> 'a list" where
  "sortWith cmp xs = foldr (insertSorted cmp) xs []"

definition getModifiedFileList :: "'w env \<Rightarrow> jsstring \<Rightarrow> ('w, ModifiedFileList list) io" where
  "getModifiedFileList env wikiFolderPath =
     bnd (GitProcess_exec env [js ''status'', js ''--porcelain''] wikiFolderPath)
       (\<lambda>r. case mapResult
                (\<lambda>(ty, rawFileRelativePath).
                   case decodeFileRelativePath rawFileRelativePath of
                     Inl e \<Rightarrow> Inl e
                   | Inr p \<Rightarrow>
                       Inr \<lparr>filePath = pathJoin env [wikiFolderPath, p],
                            fileRelativePath = p, fileType = ty\<rparr>)
                (List.map_filter parseStatusLine (compact (splitOn 0x0A (stdout r)))) of
               Inl e \<Rightarrow> throw e
             | Inr items \<Rightarrow>
                 ret (sortWith (\<lambda>item item2.
                        localeCompareZh env (fileRelativePath item) (fileRelativePath item2)) items))"

section \<open>errors.ts: GitPullPushError\<close>

text \<open>
  lodash \<open>hasUnicode\<close>: the string has a code unit of the class of \<open>reHasUnicode\<close>, which is
  the zero-width joiner, the surrogates (of astral characters), the combining marks
  (U+0300 to U+036F, U+FE20 to U+FE2F, U+20D0 to U+20FF) and the variation selectors U+FE0E
  and U+FE0F.
\<close>

definition hasUnicode :: "jsstring \<Rightarrow> bool" where
  "hasUnicode s =
     list_ex (\<lambda>c. c = 0x200D \<or> (0xD800 \<le> c \<and> c \<le> 0xDFFF) \<or> (0x0300 \<le> c \<and> c \<le> 0x036F)
                  \<or> (0xFE20 \<le> c \<and> c \<le> 0xFE2F) \<or> (0x20D0 \<le> c \<and> c \<le> 0x20FF)
                  \<or> c = 0xFE0E \<or> c = 0xFE0F) s"

text \<open>
  \<open>lodashTruncate\<close> is lodash \<open>truncate(string, { length: len })\<close> with the default omission \<open>...\<close> and no
  separator. \<open>undefined\<close> becomes the empty string. The length of the string is its number
  of code units, or, when \<open>hasUnicode\<close> holds, the number of its symbols as \<open>stringToArray\<close>
  splits it; a string that is not longer than \<open>len\<close> is returned whole; otherwise the
  first \<open>len - 3\<close> code units, or symbols, are kept and the omission is appended.
\<close>

definition lodashTruncate :: "(jsstring \<Rightarrow> jsstring list) \<Rightarrow> jsstring option \<Rightarrow> nat \<Rightarrow> jsstring" where
  "lodashTruncate stringToArray v len =
     (let string = (case v of None \<Rightarrow> [] | Some s \<Rightarrow> s);
          omission = js ''...''
      in if hasUnicode string
         then (let strSymbols = stringToArray string
               in if length strSymbols \<le> len then string
                  else if len < length omission + 1 then omission
                  else concat (take (len - length omission) strSymbols) @ omission)
         else (if length string \<le> len then string
               else if len < length omission + 1 then omission
               else take (len - length omission) string @ omission))"

text \<open>The constructor: \<open>{...configuration, userInfo: {...(configuration.userInfo ?? {}),
  accessToken: truncate(configuration.userInfo?.accessToken, {length: 24})}}\<close>.\<close>

definition newGitPullPushError ::
  "(jsstring \<Rightarrow> jsstring list) \<Rightarrow> options \<Rightarrow> jsstring \<Rightarrow> error" where
  "newGitPullPushError stringToArray configuration extraMessages =
     GitPullPushError
       \<lparr>reportedDir = dir configuration,
        reportedRemoteUrl = remoteUrl configuration,
        reportedUserInfo =
          map_option (\<lambda>u. \<lparr>email = email u, gitUserName = gitUserName u, branch = branch u\<rparr>)
            (userInfo configuration),
        reportedAccessToken =
          lodashTruncate stringToArray
            (case userInfo configuration of None \<Rightarrow> None | Some u \<Rightarrow> accessToken u) 24,
        reportedCommitMessage = commitMessage configuration,
        reportedDefaultGitInfo = defaultGitInfo configuration,
        reportedFilesToIgnore = filesToIgnore configuration\<rparr>
       extraMessages"

section \<open>commitAndSync\<close>

text \<open>
  The source calls \<open>getSyncState(dir, defaultBranchName, logger)\<close> and
  \<open>assumeSync(dir, defaultBranchName, logger)\<close>: the logger is in the place of
  \<open>remoteName\<close>. Without a logger the remote name is undefined and \<open>getRemoteName\<close> is
  asked; with one, the template literal of \<open>getSyncState\<close> turns the object into a string.
\<close>

definition loggerAsRemoteName :: "bool \<Rightarrow> jsstring option" where
  "loggerAsRemoteName hasLogger = (if hasLogger then Some (js ''[object Object]'') else None)"

text \<open>How the \<open>switch\<close> is left: by the \<open>return\<close> of the case \<open>equal\<close>, or past its end with
  the variables \<open>exitCode\<close> and \<open>stderr\<close>.\<close>

datatype switchExit = Returned | Completed int "jsstring option"

text \<open>The \<open>switch\<close> over the sync state, with the case labels of the source.\<close>

definition reconcile ::
  "'w env \<Rightarrow> jsstring \<Rightarrow> jsstring \<Rightarrow> jsstring \<Rightarrow> jsstring option \<Rightarrow> bool \<Rightarrow> jsstring \<Rightarrow> jsstring
     \<Rightarrow> ('w, switchExit) io" where
  "reconcile env d url user mail hasLogger defaultBranchName syncState =
     (if syncState = js ''equal'' then
        bnd (credentialOffCall env d url) (\<lambda>u. ret Returned)
      else if syncState = js ''noUpstream'' then
        bnd (GitProcess_exec env [js ''push'', js ''origin'', defaultBranchName] d)
          (\<lambda>r. if exitCode r = 0 then ret (Completed (exitCode r) (Some (stderr r)))
                else throw (CantSyncGitNotInitializedError d))
      else if syncState = js ''ahead'' then
        bnd (GitProcess_exec env
               [js ''push'', js ''origin'', defaultBranchName @ js '':'' @ defaultBranchName] d)
          (\<lambda>r. ret (Completed (exitCode r) (Some (stderr r))))
      else if syncState = js ''behind'' then
        bnd (GitProcess_exec env
               [js ''merge'', js ''--ff'', js ''--ff-only'', js ''origin/'' @ defaultBranchName] d)
          (\<lambda>r. ret (Completed (exitCode r) (Some (stderr r))))
      else if syncState = js ''diverged'' then
        bnd (GitProcess_exec env [js ''rebase'', js ''origin/'' @ defaultBranchName] d)
          (\<lambda>r.
        bnd (if exitCode r = 0
             then bnd (getGitRepositoryState env d)
                    (\<lambda>s. if length s = 0
                          then bnd (getSyncState env d defaultBranchName (loggerAsRemoteName hasLogger))
                                 (\<lambda>s2. ret (s2 = js ''ahead''))
                          else ret False)
             else ret False)
          (\<lambda>rebaseSucceed.
        bnd (if rebaseSucceed then ret () else continueRebase env d user mail None)
          (\<lambda>u.
        bnd (GitProcess_exec env
               [js ''push'', js ''origin'', defaultBranchName @ js '':'' @ defaultBranchName] d)
          (\<lambda>p. ret (Completed (exitCode r) (Some (stderr r)))))))
      else ret (Completed 0 None))"

text \<open>The end of the function, after the \<open>credentialOff\<close> that follows the \<open>switch\<close>.\<close>

definition verify ::
  "'w env \<Rightarrow> options \<Rightarrow> jsstring \<Rightarrow> int \<Rightarrow> jsstring option \<Rightarrow> ('w, unit) io" where
  "verify env opts defaultBranchName exitCode' stderr' =
     (if exitCode' = 0
      then assumeSync env (dir opts) defaultBranchName (loggerAsRemoteName (logger opts))
      else throw (newGitPullPushError (lodashStringToArray env) opts
                    (case stderr' of None \<Rightarrow> [] | Some e \<Rightarrow> e)))"

text \<open>The steps from the preflight check to the end of the \<open>switch\<close>, once the two
  parameters are known to be present.\<close>

definition synchronise ::
  "'w env \<Rightarrow> options \<Rightarrow> jsstring \<Rightarrow> jsstring \<Rightarrow> ('w, jsstring \<times> switchExit) io" where
  "synchronise env opts url token =
     (let d = dir opts;
          info = (case defaultGitInfo opts of None \<Rightarrow> defaultDefaultGitInfo env | Some i \<Rightarrow> i);
          user = (case userInfo opts of None \<Rightarrow> gitUserName info | Some u \<Rightarrow> gitUserName u);
          mail = (case userInfo opts of None \<Rightarrow> email info | Some u \<Rightarrow> email u);
          br = (case userInfo opts of None \<Rightarrow> branch info | Some u \<Rightarrow> branch u);
          mail' = (case mail of None \<Rightarrow> email info | Some m \<Rightarrow> Some m);
          message = (case commitMessage opts of None \<Rightarrow> js ''Updated with Git-Sync'' | Some m \<Rightarrow> m)
      in
        bnd (getDefaultBranchName env d)
          (\<lambda>b. let defaultBranchName = (case b of None \<Rightarrow> br | Some n \<Rightarrow> n) in
        bnd (getGitRepositoryState env d)
          (\<lambda>repoStartingState.
        bnd (if length repoStartingState = 0 \<or> repoStartingState = js ''|DIRTY'' then ret ()
             else if repoStartingState = js ''NOGIT'' then throw (CantSyncGitNotInitializedError d)
             else continueRebase env d user mail' (Some repoStartingState))
          (\<lambda>u1.
        bnd (haveLocalChanges env d)
          (\<lambda>changed.
        bnd (if changed
             then bnd (commitFiles env d user mail' message (filesToIgnore opts)) (\<lambda>c. ret ())
             else ret ())
          (\<lambda>u2.
        bnd (credentialOnCall env d url user token)
          (\<lambda>u3.
        bnd (GitProcess_exec env [js ''fetch'', js ''origin'', defaultBranchName] d)
          (\<lambda>f.
        bnd (getSyncState env d defaultBranchName (loggerAsRemoteName (logger opts)))
          (\<lambda>syncState.
        bnd (reconcile env d url user mail' (logger opts) defaultBranchName syncState)
          (\<lambda>x. ret (defaultBranchName, x)))))))))))"

definition commitAndSync :: "'w env \<Rightarrow> options \<Rightarrow> ('w, unit) io" where
  "commitAndSync env opts =
     (case (case userInfo opts of None \<Rightarrow> None | Some u \<Rightarrow> accessToken u) of
        None \<Rightarrow> throw (SyncParameterMissingError (js ''accessToken''))
      | Some token \<Rightarrow>
          if token = [] then throw (SyncParameterMissingError (js ''accessToken''))
          else (case remoteUrl opts of
                  None \<Rightarrow> throw (SyncParameterMissingError (js ''remoteUrl''))
                | Some url \<Rightarrow>
                    if url = [] then throw (SyncParameterMissingError (js ''remoteUrl''))
                    else
                      bnd (synchronise env opts url token)
                        (\<lambda>(defaultBranchName, x).
                           case x of
                             Returned \<Rightarrow> ret ()
                           | Completed exitCode' stderr' \<Rightarrow>
                               bnd (credentialOffCall env (dir opts) url)
                                 (\<lambda>u. verify env opts defaultBranchName exitCode' stderr'))))"

section \<open>The credential manager\<close>

text \<open>
  credential.ts (\<open>credentialOn\<close>, \<open>credentialOff\<close>, \<open>getGitUrlWithCredential\<close>) is not among
  the sources; only its test is. Its functions are modelled from the specification of the
  credential manager; the remotes of a repository are a map from remote name to URL.
\<close>

definition httpsScheme :: jsstring where
  "httpsScheme = js ''https://''"

text \<open>
  Modelled from the spec: the URL that \<open>embed\<close> writes, absent with credential.ts. It is
  the HTTPS URL with \<open>username:token@\<close> inserted after the scheme, the rest of the URL kept
  verbatim; only defined for HTTPS URLs, anything else is left as it is.
\<close>

definition getGitUrlWithCredential :: "jsstring \<Rightarrow> jsstring \<Rightarrow> jsstring \<Rightarrow> jsstring" where
  "getGitUrlWithCredential rawUrl username token =
     (if startsWith rawUrl httpsScheme
      then httpsScheme @ username @ js '':'' @ token @ js ''@'' @ drop (length httpsScheme) rawUrl
      else rawUrl)"

text \<open>
  Modelled from the spec: the URL that \<open>strip\<close> writes, absent with credential.ts. \<open>strip\<close>
  is given the directory and the remote name only, so it works on the URL it finds: it
  removes what stands between the scheme and the first \<open>@\<close>, with that \<open>@\<close>; an HTTPS URL
  without \<open>@\<close> and any other URL is left as it is.
\<close>

definition stripCredential :: "jsstring \<Rightarrow> jsstring" where
  "stripCredential urlWithCredential =
     (if startsWith urlWithCredential httpsScheme \<and> includesChar urlWithCredential 0x40
      then httpsScheme
             @ tl (dropWhile (\<lambda>c. c \<noteq> 0x40) (drop (length httpsScheme) urlWithCredential))
      else urlWithCredential)"

text \<open>
  Modelled from the spec: \<open>embed(dir, remoteUrl, username, token, remoteName)\<close>, the
  \<open>credentialOn\<close> of the absent credential.ts, sets the URL of the named remote.
\<close>

definition credentialOn ::
  "(jsstring \<rightharpoonup> jsstring) \<Rightarrow> jsstring \<Rightarrow> jsstring \<Rightarrow> jsstring \<Rightarrow> jsstring
     \<Rightarrow> (jsstring \<rightharpoonup> jsstring)" where
  "credentialOn remotes url username token remoteName =
     remotes(remoteName \<mapsto> getGitUrlWithCredential url username token)"

text \<open>
  Modelled from the spec: \<open>strip(dir, remoteName)\<close>, the \<open>credentialOff\<close> of the absent
  credential.ts, rewrites the URL of the named remote, if there is such a remote.
\<close>

definition credentialOff :: "(jsstring \<rightharpoonup> jsstring) \<Rightarrow> jsstring \<Rightarrow> (jsstring \<rightharpoonup> jsstring)" where
  "credentialOff remotes remoteName =
     (case remotes remoteName of
        None \<Rightarrow> remotes
      | Some url \<Rightarrow> remotes(remoteName \<mapsto> stripCredential url))"

section \<open>The statements of the specification\<close>

text \<open>
  Definitions that follow the words of the specification, to be compared with the
  functions above.
\<close>

text \<open>The table of the sync state classifier: \<open>left\<close> counts the commits only on the
  remote side, \<open>right\<close> those only on the local side.\<close>

definition tabulated :: "nat \<Rightarrow> nat \<Rightarrow> jsstring" where
  "tabulated left right =
     (if left = 0 \<and> right = 0 then js ''equal''
      else if left = 0 then js ''ahead''
      else if right = 0 then js ''behind''
      else js ''diverged'')"

text \<open>A configuration value is blank when it is whitespace only; the remote name is the
  first value that is not blank, trimmed, or the default.\<close>

definition blank :: "jsstring \<Rightarrow> bool" where
  "blank v = list_all isSpace v"

definition firstNonBlankOr :: "jsstring list \<Rightarrow> jsstring \<Rightarrow> jsstring" where
  "firstNonBlankOr vs dflt =
     (case filter (\<lambda>v. \<not> blank v) vs of [] \<Rightarrow> dflt | v # others \<Rightarrow> trim v)"

text \<open>A parameter is missing when it is undefined or the empty string.\<close>

definition accessTokenOf :: "options \<Rightarrow> jsstring option" where
  "accessTokenOf opts = (case userInfo opts of None \<Rightarrow> None | Some u \<Rightarrow> accessToken u)"

definition missing :: "jsstring option \<Rightarrow> bool" where
  "missing v = (v = None \<or> v = Some [])"

text \<open>
  The base of the reported condition by precedence: the interactive rebase, then the
  rebase-merge directory, then every other detected operation, appended in order.
  \<open>marker\<close> is one probe: the entry of the git directory exists and is of the given kind.
\<close>

definition reportedBase :: "bool \<Rightarrow> bool \<Rightarrow> (bool \<times> jsstring) list \<Rightarrow> jsstring" where
  "reportedBase rebaseInteractive rebaseMerge others =
     (if rebaseInteractive then js ''REBASE-i''
      else if rebaseMerge then js ''REBASE-m''
      else concat (map snd (filter fst others)))"

definition marker :: "'w env \<Rightarrow> 'w \<Rightarrow> jsstring \<Rightarrow> jsstring list \<Rightarrow> fileKind \<Rightarrow> bool" where
  "marker env w gitDirectory name kind =
     (fsLstat env (pathJoin env (gitDirectory # name)) w = Some kind)"

text \<open>
  The status codes of the pattern (untracked \<open>??\<close>; added, copied, modified or renamed in
  the index; deleted or modified in the work tree), the lines of a listing (a line ends at
  a line terminator), and a listing one of whose lines starts with such a code.
  \<open>codeAt\<close>, \<open>lineStart\<close> and \<open>innerChange\<close> say the same by index.
\<close>

definition isStatusCode :: "nat \<Rightarrow> nat \<Rightarrow> bool" where
  "isStatusCode x y =
     ((x = 0x3F \<and> y = 0x3F)
      \<or> (x \<in> set (js ''ACMR'') \<and> y = 0x20)
      \<or> (x \<in> set (js '' ACMR'') \<and> y \<in> set (js ''DM'')))"

definition codeAt :: "jsstring \<Rightarrow> nat \<Rightarrow> bool" where
  "codeAt s i = (Suc i < length s \<and> isStatusCode (s ! i) (s ! Suc i))"

definition lineStart :: "jsstring \<Rightarrow> nat \<Rightarrow> bool" where
  "lineStart s i = (i = 0 \<or> (i \<le> length s \<and> isLineTerminator (s ! (i - 1))))"

fun splitLines :: "jsstring \<Rightarrow> jsstring list" where
  "splitLines [] = [[]]"
| "splitLines (c # cs) =
     (if isLineTerminator c then [] # splitLines cs
      else (case splitLines cs of [] \<Rightarrow> [[c]] | l # ls \<Rightarrow> (c # l) # ls))"

definition lineHasChange :: "jsstring \<Rightarrow> bool" where
  "lineHasChange l = (case l of x # y # r \<Rightarrow> isStatusCode x y | other \<Rightarrow> False)"

definition listingHasChange :: "jsstring \<Rightarrow> bool" where
  "listingHasChange out = list_ex lineHasChange (splitLines out)"

definition innerChange :: "jsstring \<Rightarrow> bool" where
  "innerChange s = (\<exists>k. 0 < k \<and> k \<le> length s \<and> isLineTerminator (s ! (k - 1)) \<and> codeAt s k)"

section \<open>A scripted environment\<close>

text \<open>
  A scenario fixes what the collaborators answer, whatever the state of the world: the
  concrete inputs at which the properties below are evaluated. The repository is at
  \<open>/repo\<close>, on the branch \<open>main\<close>.
\<close>

record scenario =
  statusOutput :: jsstring
  revListOut :: jsstring
  configValues :: "(jsstring \<times> jsstring) list"
  transferExitCode :: int
  transferStderr :: jsstring
  rebaseRecovery :: "error + unit"
  markers :: "(jsstring \<times> fileKind) list"

definition succeeded :: "jsstring \<Rightarrow> execResult" where
  "succeeded out = \<lparr>exitCode = 0, stdout = out, stderr = []\<rparr>"

definition sampleGit ::
  "scenario \<Rightarrow> jsstring list \<Rightarrow> jsstring \<Rightarrow> unit \<Rightarrow> (error + execResult) \<times> unit" where
  "sampleGit sc args d w =
     (if take 2 args = [js ''rev-parse'', js ''--is-inside-work-tree'']
        then (Inr (succeeded (js ''true'' @ [0x0A])), w)
      else if take 2 args = [js ''rev-parse'', js ''--git-dir'']
        then (Inr (succeeded (js ''.git'' @ [0x0A] @ d @ [0x0A])), w)
      else if take 2 args = [js ''rev-parse'', js ''--is-bare-repository'']
        then (Inr (succeeded (js ''false'' @ [0x0A] @ d @ [0x0A])), w)
      else if take 2 args = [js ''rev-parse'', js ''--abbrev-ref'']
        then (Inr (succeeded (js ''main'' @ [0x0A])), w)
      else if take 1 args = [js ''status''] then (Inr (succeeded (statusOutput sc)), w)
      else if take 2 args = [js ''config'', js ''--get'']
        then (case map_of (configValues sc) (concat (drop 2 args)) of
                None \<Rightarrow> (Inr \<lparr>exitCode = 1, stdout = [], stderr = []\<rparr>, w)
              | Some v \<Rightarrow> (Inr (succeeded v), w))
      else if take 1 args = [js ''rev-list''] then (Inr (succeeded (revListOut sc)), w)
      else if take 1 args = [js ''fetch''] then (Inr (succeeded []), w)
      else (Inr \<lparr>exitCode = transferExitCode sc, stdout = [], stderr = transferStderr sc\<rparr>, w))"

text \<open>The symbols of a string as its code points: a high surrogate with the low surrogate
  after it is one symbol, every other code unit is one. lodash splits so when the string
  has no combining mark, variation selector, joiner, regional indicator or skin-tone
  modifier.\<close>

fun codePoints :: "jsstring \<Rightarrow> jsstring list" where
  "codePoints (h # l # r) =
     (if 0xD800 \<le> h \<and> h \<le> 0xDBFF \<and> 0xDC00 \<le> l \<and> l \<le> 0xDFFF
      then [h, l] # codePoints r
      else [h] # codePoints (l # r))"
| "codePoints [c] = [[c]]"
| "codePoints [] = []"

fun joinPath :: "jsstring list \<Rightarrow> jsstring" where
  "joinPath [] = js ''.''"
| "joinPath [p] = p"
| "joinPath (p # ps) = p @ js ''/'' @ joinPath ps"

definition sampleEnv :: "scenario \<Rightarrow> unit env" where
  "sampleEnv sc =
     \<lparr>gitExec = sampleGit sc,
      fsLstat = (\<lambda>p w. map_of (markers sc) p),
      pathJoin = joinPath,
      pathResolve = (\<lambda>a b. a @ js ''/'' @ b),
      pathDirname = (\<lambda>p. rev (drop 1 (dropWhile (\<lambda>c. c \<noteq> 0x2F) (rev p)))),
      localeCompareZh = (\<lambda>a b. if a = b then 0 else if ord.lexordp (<) a b then - 1 else 1),
      lodashStringToArray = codePoints,
      envCredentialOn = (\<lambda>d url user token w. (Inr (), w)),
      envCredentialOff = (\<lambda>d name w. (Inr (), w)),
      envContinueRebase = (\<lambda>d user mail st w. (rebaseRecovery sc, w)),
      envCommitFiles = (\<lambda>d user mail msg ign w. (Inr (succeeded []), w)),
      defaultDefaultGitInfo =
        \<lparr>email = Some (js ''gitsync@gmail.com''), gitUserName = js ''gitsync'',
         branch = js ''main'', remote = js ''origin''\<rparr>\<rparr>"

definition sampleOptions :: options where
  "sampleOptions =
     \<lparr>dir = js ''/repo'', remoteUrl = Some (js ''https://github.com/u/r''),
      userInfo = Some \<lparr>email = None, gitUserName = js ''u'', branch = js ''main'',
                      accessToken = Some (js ''0123456789abcdefghijklmnopqrstu'')\<rparr>,
      commitMessage = None, logger = False, defaultGitInfo = None, filesToIgnore = None\<rparr>"

text \<open>A clean repository whose remote has no branch yet: \<open>rev-list\<close> prints nothing.\<close>

definition cleanNoUpstream :: scenario where
  "cleanNoUpstream =
     \<lparr>statusOutput = [], revListOut = [], configValues = [], transferExitCode = 0,
      transferStderr = [], rebaseRecovery = Inr (), markers = []\<rparr>"

text \<open>Local and remote have one commit each; the rebase stops with a conflict and the
  recovery of sync.ts gives up.\<close>

definition divergedStuck :: scenario where
  "divergedStuck =
     cleanNoUpstream
       \<lparr>revListOut := revListOutput 1 1, transferExitCode := 1,
        transferStderr := js ''CONFLICT'',
        rebaseRecovery := Inl (CantSyncInSpecialGitStateAutoFixFailed (js ''REBASE-m''))\<rparr>"

text \<open>The local branch is one commit ahead and the push fails with exit code 128.\<close>

definition aheadPushFails :: scenario where
  "aheadPushFails =
     cleanNoUpstream
       \<lparr>revListOut := revListOutput 0 1, transferExitCode := 128,
        transferStderr := js ''fatal: unable to access''\<rparr>"

text \<open>One untracked file, and a merge and a cherry-pick left unfinished.\<close>

definition untrackedWhileMerging :: scenario where
  "untrackedWhileMerging =
     cleanNoUpstream
       \<lparr>statusOutput := js ''?? new.txt'' @ [0x0A],
        markers := [(js ''/repo/.git/MERGE_HEAD'', File),
                    (js ''/repo/.git/CHERRY_PICK_HEAD'', File)]\<rparr>"

text \<open>\<open>remote.pushDefault\<close> is set, \<open>branch.main.pushRemote\<close> is whitespace only.\<close>

definition pushDefaultSet :: scenario where
  "pushDefaultSet =
     cleanNoUpstream
       \<lparr>configValues := [(js ''branch.main.pushRemote'', js '' '' @ [0x0A]),
                          (js ''remote.pushDefault'', js ''upstream'' @ [0x0A]),
                          (js ''branch.main.remote'', js ''origin'' @ [0x0A])]\<rparr>"

text \<open>
  Names of untracked files as git prints them, quoted: the name \<open>a\<close>, the byte 1, \<open>b.txt\<close>
  (git writes a control byte as a backslash and three octal digits), and the name \<open>50%\<close>, a
  character of three UTF-8 bytes, \<open>.txt\<close>. \<open>untracked name\<close> is the clean repository
  with that one untracked file.
\<close>

definition quotedControlName :: jsstring where
  "quotedControlName = [0x22] @ js ''a'' @ [0x5C] @ js ''001b.txt'' @ [0x22]"

definition quotedPercentName :: jsstring where
  "quotedPercentName =
     [0x22] @ js ''50%'' @ [0x5C] @ js ''346'' @ [0x5C] @ js ''226'' @ [0x5C] @ js ''260.txt'' @ [0x22]"

definition untracked :: "jsstring \<Rightarrow> scenario" where
  "untracked name = cleanNoUpstream\<lparr>statusOutput := js ''?? '' @ name @ [0x0A]\<rparr>"

text \<open>Ten commits on the remote that the local branch lacks, none the other way.\<close>

definition tenBehind :: scenario where
  "tenBehind = cleanNoUpstream\<lparr>revListOut := revListOutput 10 0\<rparr>"

fun isCredentialOn :: "call \<Rightarrow> bool" where
  "isCredentialOn (CredentialOn d url user token) = True"
| "isCredentialOn c = False"

fun isCredentialOff :: "call \<Rightarrow> bool" where
  "isCredentialOff (CredentialOff d name) = True"
| "isCredentialOff c = False"

fun isGitPush :: "call \<Rightarrow> bool" where
  "isGitPush (GitExec args d) = (take 1 args = [js ''push''])"
| "isGitPush c = False"

section \<open>Properties\<close>

subsection \<open>Auxiliary facts\<close>

lemma exec_apply:
  "gitExec env args d w = (r, w') \<Longrightarrow> GitProcess_exec env args d (w, tr) = (r, (w', tr @ [GitExec args d]))"
  by (simp add: GitProcess_exec_def perform_def)

lemma dropWhile_nil_iff: "dropWhile P xs = [] \<longleftrightarrow> list_all P xs"
  by (induction xs) auto

lemma trim_empty_iff: "trim v = [] \<longleftrightarrow> blank v"
proof -
  have "trim v = [] \<longleftrightarrow> dropWhile isSpace (rev (dropWhile isSpace v)) = []"
    by (simp add: trim_def)
  also have "\<dots> \<longleftrightarrow> list_all isSpace (dropWhile isSpace v)"
    by (simp add: dropWhile_nil_iff list_all_iff)
  also have "\<dots> \<longleftrightarrow> list_all isSpace v"
  proof
    assume a: "list_all isSpace (dropWhile isSpace v)"
    have "set v = set (takeWhile isSpace v) \<union> set (dropWhile isSpace v)"
      by (metis set_append takeWhile_dropWhile_id)
    with a show "list_all isSpace v"
      by (auto simp: list_all_iff dest: set_takeWhileD)
  next
    assume "list_all isSpace v"
    then show "list_all isSpace (dropWhile isSpace v)"
      by (auto simp: list_all_iff dest: set_dropWhileD)
  qed
  finally show ?thesis by (simp add: blank_def)
qed

lemma getRemoteName_nonempty:
  "getRemoteName env d br st = (Inr name, st') \<Longrightarrow> name \<noteq> []"
  by (auto simp: getRemoteName_def bnd_def ret_def js_def split: prod.splits sum.splits if_splits)

lemma rmatch_statusCode:
  "rmatch statusCode s (i, c) = (if codeAt s i then [(Suc (Suc i), c)] else [])"
  by (auto simp: statusCode_def rmatch.simps lit_def oneOf_def js_def codeAt_def isStatusCode_def)

lemma rmatch_statusGroup:
  "rmatch (Grp n statusCode) s (i, c) =
     (if codeAt s i then [(Suc (Suc i), (n, i, Suc (Suc i)) # filter (\<lambda>(g, be). g \<noteq> n) c)] else [])"
  by (simp add: rmatch.simps(9) rmatch_statusCode)

lemma rmatch_Star_nonempty: "rmatch (Star a) s (i, c) \<noteq> []"
  by (subst rmatch.simps(8)) simp

lemma rmatch_Star_statusGroup:
  "\<exists>e c' ms. rmatch (Star (Grp n statusCode)) s (i, c) = (e, c') # ms \<and> (e = i \<longleftrightarrow> \<not> codeAt s i)"
proof (cases "codeAt s i")
  case False
  then show ?thesis
    by (subst rmatch.simps(8)) (simp add: rmatch_statusGroup)
next
  case True
  let ?c2 = "(n, i, Suc (Suc i)) # filter (\<lambda>(g, be). g \<noteq> n) (filter (\<lambda>(g, be). g \<notin> set (groupsOf (Grp n statusCode))) c)"
  from True have len: "Suc (Suc i) \<le> length s" by (simp add: codeAt_def)
  have unfold: "rmatch (Star (Grp n statusCode)) s (i, c) =
      rmatch (Star (Grp n statusCode)) s (Suc (Suc i), ?c2) @ [(i, c)]"
    using True len by (subst rmatch.simps(8)) (simp add: rmatch_statusGroup)
  obtain e c' ms where hd: "rmatch (Star (Grp n statusCode)) s (Suc (Suc i), ?c2) = (e, c') # ms"
    using rmatch_Star_nonempty[of "Grp n statusCode" s "Suc (Suc i)" ?c2]
    by (cases "rmatch (Star (Grp n statusCode)) s (Suc (Suc i), ?c2)") auto
  then have "(e, c') \<in> set (rmatch (Star (Grp n statusCode)) s (Suc (Suc i), ?c2))" by simp
  then have "Suc (Suc i) \<le> e" by (rule rmatch_pos_ge)
  with unfold hd True show ?thesis by simp
qed

lemma rmatch_localChangesRegex:
  "rmatch localChangesRegex s (i, []) =
     (if lineStart s i then rmatch (Star (Grp 1 statusCode)) s (i, []) else [])"
  by (auto simp: localChangesRegex_def rmatch.simps(6) rmatch.simps(4) lineStart_def)

lemma matchAllFrom_localChanges:
  "list_ex (\<lambda>m. m \<noteq> []) (matchAllFrom localChangesRegex s i)
     \<longleftrightarrow> (\<exists>k. i \<le> k \<and> k \<le> length s \<and> lineStart s k \<and> codeAt s k)"
proof (induction localChangesRegex s i rule: matchAllFrom.induct)
  case (1 s i)
  show ?case
  proof (cases "length s < i")
    case True
    then show ?thesis by (subst matchAllFrom.simps) auto
  next
    case inrange: False
    show ?thesis
    proof (cases "lineStart s i")
      case False
      then have nil: "rmatch localChangesRegex s (i, []) = []"
        by (simp add: rmatch_localChangesRegex)
      have "list_ex (\<lambda>m. m \<noteq> []) (matchAllFrom localChangesRegex s i)
            = list_ex (\<lambda>m. m \<noteq> []) (matchAllFrom localChangesRegex s (Suc i))"
        using inrange nil by (subst matchAllFrom.simps) simp
      also have "\<dots> \<longleftrightarrow> (\<exists>k. Suc i \<le> k \<and> k \<le> length s \<and> lineStart s k \<and> codeAt s k)"
        using "1.hyps"(1)[OF inrange nil] .
      also have "\<dots> \<longleftrightarrow> (\<exists>k. i \<le> k \<and> k \<le> length s \<and> lineStart s k \<and> codeAt s k)"
        using False by (metis Suc_leD Suc_leI le_neq_implies_less)
      finally show ?thesis .
    next
      case True
      obtain e c' ms where m: "rmatch (Star (Grp 1 statusCode)) s (i, []) = (e, c') # ms"
        and e: "e = i \<longleftrightarrow> \<not> codeAt s i"
        using rmatch_Star_statusGroup[of 1 s i "[]"] by blast
      from True m have m': "rmatch localChangesRegex s (i, []) = (e, c') # ms"
        by (simp add: rmatch_localChangesRegex)
      then have "(e, c') \<in> set (rmatch localChangesRegex s (i, []))" by simp
      then have ge: "i \<le> e" by (rule rmatch_pos_ge)
      show ?thesis
      proof (cases "codeAt s i")
        case c: True
        with e ge have "i < e" by simp
        moreover from c have "i < length s" by (simp add: codeAt_def)
        ultimately have "slice s i e \<noteq> []" by (simp add: slice_def)
        then have "list_ex (\<lambda>m. m \<noteq> []) (matchAllFrom localChangesRegex s i)"
          using inrange m' by (subst matchAllFrom.simps) simp
        moreover have "\<exists>k. i \<le> k \<and> k \<le> length s \<and> lineStart s k \<and> codeAt s k"
          using True c inrange by (intro exI[of _ i]) simp
        ultimately show ?thesis by simp
      next
        case c: False
        with e have ei: "e = i" by simp
        have "list_ex (\<lambda>m. m \<noteq> []) (matchAllFrom localChangesRegex s i)
            = list_ex (\<lambda>m. m \<noteq> []) (matchAllFrom localChangesRegex s (Suc i))"
          using inrange m' ei by (subst matchAllFrom.simps) (simp add: slice_def)
        also have "\<dots> \<longleftrightarrow> (\<exists>k. Suc i \<le> k \<and> k \<le> length s \<and> lineStart s k \<and> codeAt s k)"
          using "1.hyps"(2)[OF inrange m' refl] ei by simp
        also have "\<dots> \<longleftrightarrow> (\<exists>k. i \<le> k \<and> k \<le> length s \<and> lineStart s k \<and> codeAt s k)"
          using c by (metis Suc_leD Suc_leI le_neq_implies_less)
        finally show ?thesis .
      qed
    qed
  qed
qed

lemma isStatusCode_not_terminator:
  "isStatusCode x y \<Longrightarrow> \<not> isLineTerminator x \<and> \<not> isLineTerminator y"
  by (auto simp: isStatusCode_def isLineTerminator_def js_def)

lemma codeAt_Cons_Suc: "codeAt (c # cs) (Suc k) = codeAt cs k"
  by (simp add: codeAt_def)

lemma codeAt_Cons_0: "codeAt (c # cs) 0 = (case cs of [] \<Rightarrow> False | y # r \<Rightarrow> isStatusCode c y)"
  by (cases cs) (simp_all add: codeAt_def)

lemma codeAt_Nil: "\<not> codeAt [] k"
  by (simp add: codeAt_def)

lemma innerChange_Nil: "\<not> innerChange []"
  by (simp add: innerChange_def)

lemma innerChange_Cons:
  "innerChange (c # cs) \<longleftrightarrow> (isLineTerminator c \<and> codeAt cs 0) \<or> innerChange cs"
proof
  assume "innerChange (c # cs)"
  then obtain k where k: "0 < k" "k \<le> length (c # cs)"
      "isLineTerminator ((c # cs) ! (k - 1))" "codeAt (c # cs) k"
    by (auto simp: innerChange_def)
  then obtain j where j: "k = Suc j" by (cases k) auto
  show "(isLineTerminator c \<and> codeAt cs 0) \<or> innerChange cs"
  proof (cases j)
    case 0
    with k j show ?thesis by (simp add: codeAt_Cons_Suc)
  next
    case (Suc i)
    with k j have "0 < j \<and> j \<le> length cs \<and> isLineTerminator (cs ! (j - 1)) \<and> codeAt cs j"
      by (simp add: codeAt_Cons_Suc)
    then show ?thesis by (auto simp: innerChange_def)
  qed
next
  assume "(isLineTerminator c \<and> codeAt cs 0) \<or> innerChange cs"
  then show "innerChange (c # cs)"
  proof
    assume a: "isLineTerminator c \<and> codeAt cs 0"
    then have "0 < length cs" by (auto simp: codeAt_def)
    with a have "0 < Suc 0 \<and> Suc 0 \<le> length (c # cs) \<and> isLineTerminator ((c # cs) ! (Suc 0 - 1))
        \<and> codeAt (c # cs) (Suc 0)"
      by (simp add: codeAt_Cons_Suc)
    then show ?thesis unfolding innerChange_def by blast
  next
    assume "innerChange cs"
    then obtain k where k: "0 < k" "k \<le> length cs" "isLineTerminator (cs ! (k - 1))" "codeAt cs k"
      by (auto simp: innerChange_def)
    then have "0 < Suc k \<and> Suc k \<le> length (c # cs) \<and> isLineTerminator ((c # cs) ! (Suc k - 1))
        \<and> codeAt (c # cs) (Suc k)"
      by (cases k) (simp_all add: codeAt_Cons_Suc)
    then show ?thesis unfolding innerChange_def by blast
  qed
qed

lemma change_index_split:
  "(\<exists>k. k \<le> length s \<and> lineStart s k \<and> codeAt s k) \<longleftrightarrow> codeAt s 0 \<or> innerChange s"
proof
  assume "\<exists>k. k \<le> length s \<and> lineStart s k \<and> codeAt s k"
  then obtain k where k: "k \<le> length s" "lineStart s k" "codeAt s k" by blast
  show "codeAt s 0 \<or> innerChange s"
  proof (cases "k = 0")
    case True
    with k show ?thesis by simp
  next
    case False
    with k show ?thesis by (auto simp: innerChange_def lineStart_def)
  qed
next
  assume "codeAt s 0 \<or> innerChange s"
  then show "\<exists>k. k \<le> length s \<and> lineStart s k \<and> codeAt s k"
  proof
    assume "codeAt s 0"
    then have "0 \<le> length s \<and> lineStart s 0 \<and> codeAt s 0" by (simp add: lineStart_def)
    then show ?thesis by blast
  next
    assume "innerChange s"
    then show ?thesis by (auto simp: innerChange_def lineStart_def)
  qed
qed

lemma splitLines_nonempty: "splitLines s \<noteq> []"
  by (induction s) (auto split: list.splits)

lemma hd_splitLines: "hd (splitLines s) = takeWhile (\<lambda>c. \<not> isLineTerminator c) s"
  by (induction s) (auto split: list.splits simp: splitLines_nonempty)

lemma lineHasChange_Nil: "\<not> lineHasChange []"
  by (simp add: lineHasChange_def)

lemma splitLines_head_tail:
  "lineHasChange (hd (splitLines s)) = codeAt s 0
   \<and> list_ex lineHasChange (tl (splitLines s)) = innerChange s"
proof (induction s)
  case Nil
  show ?case by (simp add: lineHasChange_def codeAt_Nil innerChange_Nil)
next
  case (Cons c cs)
  obtain l ls where sp: "splitLines cs = l # ls"
    using splitLines_nonempty[of cs] by (cases "splitLines cs") auto
  from Cons sp have hdcs: "lineHasChange l = codeAt cs 0" and tlcs: "list_ex lineHasChange ls = innerChange cs"
    by simp_all
  have l: "l = takeWhile (\<lambda>c. \<not> isLineTerminator c) cs"
    using hd_splitLines[of cs] sp by simp
  show ?case
  proof (cases "isLineTerminator c")
    case True
    have "\<not> codeAt (c # cs) 0"
      using True isStatusCode_not_terminator[of c] by (auto simp: codeAt_Cons_0 split: list.splits)
    moreover have "list_ex lineHasChange (splitLines cs) = (codeAt cs 0 \<or> innerChange cs)"
      using sp hdcs tlcs by simp
    ultimately show ?thesis
      using True by (simp add: lineHasChange_Nil innerChange_Cons)
  next
    case False
    have "lineHasChange (c # l) = codeAt (c # cs) 0"
    proof (cases cs)
      case Nil
      with l show ?thesis by (simp add: lineHasChange_def codeAt_Cons_0)
    next
      case (Cons y r)
      show ?thesis
      proof (cases "isLineTerminator y")
        case True
        with Cons l have "l = []" by simp
        moreover have "\<not> isStatusCode c y" using True isStatusCode_not_terminator[of c y] by blast
        ultimately show ?thesis using Cons by (simp add: lineHasChange_def codeAt_Cons_0)
      next
        case False
        with Cons l have "l = y # takeWhile (\<lambda>c. \<not> isLineTerminator c) r" by simp
        then show ?thesis using Cons by (simp add: lineHasChange_def codeAt_Cons_0)
      qed
    qed
    then show ?thesis
      using False sp tlcs by (simp add: innerChange_Cons)
  qed
qed

lemma listingHasChange_index:
  "listingHasChange s \<longleftrightarrow> (\<exists>k. k \<le> length s \<and> lineStart s k \<and> codeAt s k)"
proof -
  obtain l ls where sp: "splitLines s = l # ls"
    using splitLines_nonempty[of s] by (cases "splitLines s") auto
  with splitLines_head_tail[of s] have "listingHasChange s \<longleftrightarrow> codeAt s 0 \<or> innerChange s"
    by (simp add: listingHasChange_def)
  then show ?thesis by (simp add: change_index_split)
qed

lemma haveLocalChangesOfStdout_listing:
  "haveLocalChangesOfStdout out = listingHasChange out"
  by (simp add: haveLocalChangesOfStdout_def matchAllFrom_localChanges listingHasChange_index)

lemma truncate_plain:
  "\<not> hasUnicode s \<Longrightarrow>
     lodashTruncate f (Some s) 24 = (if length s \<le> 24 then s else take 21 s @ js ''...'')"
  by (simp add: lodashTruncate_def js_def)

lemma truncate_symbols:
  "hasUnicode s \<Longrightarrow>
     lodashTruncate f (Some s) 24 = (if length (f s) \<le> 24 then s else concat (take 21 (f s)) @ js ''...'')"
  by (simp add: lodashTruncate_def js_def Let_def)

lemma truncate_plain_length: "\<not> hasUnicode s \<Longrightarrow> length (lodashTruncate f (Some s) 24) \<le> 24"
  by (simp add: truncate_plain js_def)

lemma probeMarkers_apply:
  "probeMarkers env gd (w, tr) =
     (Inr (marker env w gd [js ''rebase-merge'', js ''interactive''] File,
           marker env w gd [js ''rebase-merge''] Directory,
           marker env w gd [js ''rebase-apply''] Directory,
           marker env w gd [js ''MERGE_HEAD''] File,
           marker env w gd [js ''CHERRY_PICK_HEAD''] File,
           marker env w gd [js ''BISECT_LOG''] File),
      (w, tr @ [FsLstat (pathJoin env [gd, js ''rebase-merge'', js ''interactive'']),
                FsLstat (pathJoin env [gd, js ''rebase-merge'']),
                FsLstat (pathJoin env [gd, js ''rebase-apply'']),
                FsLstat (pathJoin env [gd, js ''MERGE_HEAD'']),
                FsLstat (pathJoin env [gd, js ''CHERRY_PICK_HEAD'']),
                FsLstat (pathJoin env [gd, js ''BISECT_LOG''])]))"
  by (simp add: probeMarkers_def bnd_def ret_def lstatIsFile_def lstatIsDirectory_def perform_def marker_def)

lemma interruptedOperation_reportedBase:
  "interruptedOperation (i, m, a, g, c, b) =
     reportedBase i m [(a, js ''AM/REBASE''), (g, js ''MERGING''), (c, js ''CHERRY-PICKING''), (b, js ''BISECTING'')]"
  by (simp add: interruptedOperation_def reportedBase_def)

lemma dropWhile_until:
  "x \<notin> set a \<Longrightarrow> dropWhile (\<lambda>c. c \<noteq> x) (a @ x # r) = x # r"
  by (induction a) auto

lemma startsWith_append: "startsWith (p @ s) p"
  by (simp add: startsWith_def)

lemma endsWith_appended: "endsWith (x @ y) y"
  by (simp add: endsWith_def)

lemma endsWith_last: "endsWith s (p @ [c]) \<Longrightarrow> s \<noteq> [] \<and> last s = c"
proof -
  assume a: "endsWith s (p @ [c])"
  then have "s = take (length s - length (p @ [c])) s @ (p @ [c])"
    by (metis append_take_drop_id endsWith_def)
  then have "s = (take (length s - length (p @ [c])) s @ p) @ [c]" by simp
  then show ?thesis by (metis last_snoc snoc_eq_iff_butlast)
qed

lemma no_dirty_suffix:
  "\<not> endsWith (interruptedOperation flags @ (if b then js ''|BARE'' else [])) (js ''|DIRTY'')"
proof
  assume a: "endsWith (interruptedOperation flags @ (if b then js ''|BARE'' else [])) (js ''|DIRTY'')"
  have "js ''|DIRTY'' = js ''|DIRT'' @ [0x59]" by (simp add: js_def)
  with a have "interruptedOperation flags @ (if b then js ''|BARE'' else []) \<noteq> []
      \<and> last (interruptedOperation flags @ (if b then js ''|BARE'' else [])) = 0x59"
    using endsWith_last by metis
  then show False
    by (cases flags) (auto simp: interruptedOperation_def js_def split: if_splits)
qed

lemma sample_credentialOff:
  "credentialOffCall (sampleEnv sc) d name st = (Inr (), snd (credentialOffCall (sampleEnv sc) d name st))"
  by (cases st) (simp add: credentialOffCall_def perform_def sampleEnv_def)

lemma unit_state: "x = (fst x, ((), snd (snd x)))" for x :: "'a \<times> unit \<times> 'b"
  by (simp add: prod_eq_iff)

text \<open>Rules for evaluating the functions on concrete strings.\<close>

lemmas js_simps = js_def isSpace_def isWhiteSpace_def isLineTerminator_def

lemmas regex_simps = rmatch.simps execFrom.simps regexExec_def lit_def digit_def space_def
  nonspace_def dot_def oneOf_def opt_def plus1_def rep3_def capture_def slice_def replaceFirst_def

lemmas decode_simps = decodeFileRelativePath_def isSafeUtf8UnescapedString_def startsWith_def
  endsWith_def includesChar_def decodeGitEscape_def gitEscapeToEncodedUri_def gitEscapeRegex_def
  replaceAllFrom.simps parseInt8_def numberToString16_def toString16.simps
  decodeURIComponent.simps parseHexOctet_def hexValue_def leadingOnes_def utf8CodePoint_def
  isContinuation_def utf16Encode_def

lemma quotedControlName_line:
  "parseStatusLine (js ''?? '' @ quotedControlName) = Some (js ''??'', quotedControlName)"
  by (simp add: quotedControlName_def parseStatusLine_def statusLineRegex_def js_simps regex_simps)

lemma quotedControlName_decoded:
  "decodeFileRelativePath quotedControlName = Inr (js ''a'' @ [0x1B] @ js ''.txt'')"
  by (simp add: quotedControlName_def decode_simps js_simps regex_simps)

lemma quotedPercentName_line:
  "parseStatusLine (js ''?? '' @ quotedPercentName) = Some (js ''??'', quotedPercentName)"
  by (simp add: quotedPercentName_def parseStatusLine_def statusLineRegex_def js_simps regex_simps)

lemma quotedPercentName_decoded:
  "decodeFileRelativePath quotedPercentName = Inl URIError"
  by (simp add: quotedPercentName_def decode_simps js_simps regex_simps)

lemma untracked_lines:
  "10 \<notin> set name \<Longrightarrow> compact (splitOn 10 (js ''?? '' @ name @ [10])) = [js ''?? '' @ name]"
proof -
  have s: "\<And>xs. 10 \<notin> set xs \<Longrightarrow> splitOn 10 (xs @ [10]) = [xs, []]"
  proof -
    fix xs :: jsstring
    show "10 \<notin> set xs \<Longrightarrow> splitOn 10 (xs @ [10]) = [xs, []]"
      by (induction xs) auto
  qed
  assume "10 \<notin> set name"
  then have "10 \<notin> set (js ''?? '' @ name)" by (simp add: js_def)
  from s[OF this] show ?thesis by (simp add: compact_def js_def)
qed

lemma getModifiedFileList_untracked:
  assumes "10 \<notin> set name"
      and "parseStatusLine (js ''?? '' @ name) = Some (ty, name)"
  shows "fst (getModifiedFileList (sampleEnv (untracked name)) d ((), [])) =
           (case decodeFileRelativePath name of
              Inl e \<Rightarrow> Inl e
            | Inr p \<Rightarrow> Inr [\<lparr>filePath = d @ js ''/'' @ p, fileRelativePath = p, fileType = ty\<rparr>])"
proof -
  have g: "gitExec (sampleEnv (untracked name)) [js ''status'', js ''--porcelain''] d ()
      = (Inr (succeeded (js ''?? '' @ name @ [10])), ())"
    by (simp add: sampleEnv_def sampleGit_def untracked_def cleanNoUpstream_def js_def)
  have j: "pathJoin (sampleEnv (untracked name)) = joinPath" by (simp add: sampleEnv_def)
  show ?thesis
    unfolding getModifiedFileList_def
    by (simp add: bnd_def exec_apply[OF g] succeeded_def untracked_lines[OF assms(1)]
          List.map_filter_def assms(2) ret_def throw_def sortWith_def j split: sum.splits)
qed

text \<open>On counts of one digit the classification is the one of the table.\<close>

lemma syncStateOfStdout_one_digit_samples:
  "syncStateOfStdout [] = js ''noUpstreamOrBareUpstream''"
  "syncStateOfStdout (revListOutput 0 0) = tabulated 0 0"
  "syncStateOfStdout (revListOutput 0 3) = tabulated 0 3"
  "syncStateOfStdout (revListOutput 3 0) = tabulated 3 0"
  "syncStateOfStdout (revListOutput 3 7) = tabulated 3 7"
  by code_simp+

subsection \<open>The sync state (C1)\<close>

text \<open>
  C1. The claim: for all counts \<open>left\<close> and \<open>right\<close>, \<open>getSyncState\<close> returns the value of the
  table (\<open>left > 0\<close>, \<open>right = 0\<close> gives \<open>behind\<close>), also for counts of several digits such as
  \<open>left = 10\<close>, \<open>right = 0\<close>. The code at that input: with ten commits only on the remote side
  and none only on the local side, \<open>git rev-list\<close> prints \<open>10<TAB>0\<close>; the unanchored
  \<open>/0\t0/\<close> is tried first and matches inside it, so \<open>getSyncState\<close> returns \<open>equal\<close>, not
  \<open>behind\<close>.
\<close>

theorem getSyncState_ten_behind_reports_equal:
  "fst (getSyncState (sampleEnv tenBehind) (js ''/repo'') (js ''main'') (Some (js ''origin'')) ((), []))
     = Inr (js ''equal'')
   \<and> tabulated 10 0 = js ''behind''"
  by code_simp

subsection \<open>De-authentication (C2)\<close>

text \<open>
  C2. The claim: once \<open>commitAndSync\<close> has called \<open>credentialOn\<close>, \<open>credentialOff\<close> is called on
  every exit path, also on those that throw. The code on a run that throws after
  \<open>credentialOn\<close>: local and remote have diverged, the rebase stops with a conflict and
  \<open>continueRebase\<close> throws; the error leaves \<open>commitAndSync\<close>, whose calls contain a
  \<open>credentialOn\<close> and no \<open>credentialOff\<close>.
\<close>

theorem commitAndSync_fault_skips_credentialOff:
  "(case commitAndSync (sampleEnv divergedStuck) sampleOptions ((), []) of
      (r, w, tr) \<Rightarrow>
        r = Inl (CantSyncInSpecialGitStateAutoFixFailed (js ''REBASE-m''))
        \<and> list_ex isCredentialOn tr \<and> \<not> list_ex isCredentialOff tr)"
  by code_simp

subsection \<open>No upstream (C3)\<close>

text \<open>
  C3. The claim: whenever the sync state after the fetch is \<open>noUpstreamOrBareUpstream\<close>,
  \<open>commitAndSync\<close> pushes the local branch, and a failed push throws
  \<open>CantSyncGitNotInitializedError\<close>. The code: the case label of the \<open>switch\<close> is
  \<open>noUpstream\<close>, a value \<open>getSyncState\<close> never returns, so for the state
  \<open>noUpstreamOrBareUpstream\<close> the \<open>switch\<close> takes its default branch, whatever the
  environment: no call is made and the exit code stays 0. On the clean repository whose
  remote has no branch, the run makes no push and ends in the \<open>AssumeSyncError\<close> of the
  final check.
\<close>

theorem commitAndSync_no_upstream_never_pushes:
  "reconcile env d url user mail hasLogger defaultBranchName (js ''noUpstreamOrBareUpstream'')
     = ret (Completed 0 None)
   \<and> (case commitAndSync (sampleEnv cleanNoUpstream) sampleOptions ((), []) of
        (r, w, tr) \<Rightarrow>
          r = Inl (AssumeSyncError (js ''noUpstreamOrBareUpstream'')) \<and> \<not> list_ex isGitPush tr)"
proof -
  have "reconcile env d url user mail hasLogger defaultBranchName (js ''noUpstreamOrBareUpstream'')
     = ret (Completed 0 None)"
    by (simp add: reconcile_def js_def)
  moreover have "(case commitAndSync (sampleEnv cleanNoUpstream) sampleOptions ((), []) of
        (r, w, tr) \<Rightarrow>
          r = Inl (AssumeSyncError (js ''noUpstreamOrBareUpstream'')) \<and> \<not> list_ex isGitPush tr)"
    by code_simp
  ultimately show ?thesis by simp
qed

subsection \<open>The final verification (C4)\<close>

text \<open>
  C4. When the steps up to the end of the \<open>switch\<close> complete with the recorded exit code
  \<open>ec\<close> and error output \<open>se\<close>, and the \<open>credentialOff\<close> after the \<open>switch\<close> returns: if
  \<open>ec\<close> is zero, \<open>commitAndSync\<close> asks for the sync state, returns when it is \<open>equal\<close> and
  throws \<open>AssumeSyncError\<close> with the state otherwise; if \<open>ec\<close> is not zero, it throws
  \<open>GitPullPushError\<close> with the configuration of the run and with \<open>se\<close>, and the access
  token in that configuration is the one lodash \<open>truncate\<close> returns for the length 24. For
  a token of plain characters this is the token when it has at most 24 code units and its
  first 21 code units with three dots otherwise, so at most 24 code units. For a token
  with astral or combining characters, joiners or variation selectors the count is in
  symbols: the token when it has at most 24 symbols, its first 21 symbols with three dots
  otherwise.
\<close>

theorem commitAndSync_verification:
  assumes tok: "userInfo opts = Some u" "accessToken u = Some token" "token \<noteq> []"
      and url: "remoteUrl opts = Some url" "url \<noteq> []"
      and steps: "synchronise env opts url token st = (Inr (defaultBranchName, Completed ec se), st1)"
      and off: "credentialOffCall env (dir opts) url st1 = (Inr (), st2)"
  shows "(ec = 0 \<longrightarrow>
            commitAndSync env opts st =
              (case getSyncState env (dir opts) defaultBranchName (loggerAsRemoteName (logger opts)) st2 of
                 (Inl e, st3) \<Rightarrow> (Inl e, st3)
               | (Inr s, st3) \<Rightarrow>
                   if s = js ''equal'' then (Inr (), st3) else (Inl (AssumeSyncError s), st3)))
       \<and> (ec \<noteq> 0 \<longrightarrow>
            (\<exists>cfg. commitAndSync env opts st =
                     (Inl (GitPullPushError cfg (case se of None \<Rightarrow> [] | Some e \<Rightarrow> e)), st2)
                 \<and> reportedDir cfg = dir opts
                 \<and> reportedRemoteUrl cfg = remoteUrl opts
                 \<and> reportedAccessToken cfg = lodashTruncate (lodashStringToArray env) (Some token) 24
                 \<and> (if hasUnicode token
                     then reportedAccessToken cfg =
                            (if length (lodashStringToArray env token) \<le> 24 then token
                             else concat (take 21 (lodashStringToArray env token)) @ js ''...'')
                     else reportedAccessToken cfg =
                            (if length token \<le> 24 then token else take 21 token @ js ''...'')
                          \<and> length (reportedAccessToken cfg) \<le> 24)))"
proof -
  have run: "commitAndSync env opts st = verify env opts defaultBranchName ec se st2"
    using tok url steps off by (simp add: commitAndSync_def bnd_def)
  have zero: "ec = 0 \<Longrightarrow> verify env opts defaultBranchName ec se st2 =
      (case getSyncState env (dir opts) defaultBranchName (loggerAsRemoteName (logger opts)) st2 of
                 (Inl e, st3) \<Rightarrow> (Inl e, st3)
               | (Inr s, st3) \<Rightarrow>
                   if s = js ''equal'' then (Inr (), st3) else (Inl (AssumeSyncError s), st3))"
    by (auto simp: verify_def assumeSync_def bnd_def ret_def throw_def split: prod.splits sum.splits)
  have nonzero: "ec \<noteq> 0 \<Longrightarrow> verify env opts defaultBranchName ec se st2 =
      (Inl (newGitPullPushError (lodashStringToArray env) opts
              (case se of None \<Rightarrow> [] | Some e \<Rightarrow> e)), st2)"
    by (simp add: verify_def throw_def)
  have shape: "if hasUnicode token
      then lodashTruncate (lodashStringToArray env) (Some token) 24 =
             (if length (lodashStringToArray env token) \<le> 24 then token
              else concat (take 21 (lodashStringToArray env token)) @ js ''...'')
      else lodashTruncate (lodashStringToArray env) (Some token) 24 =
             (if length token \<le> 24 then token else take 21 token @ js ''...'')
           \<and> length (lodashTruncate (lodashStringToArray env) (Some token) 24) \<le> 24"
    using truncate_plain[of token "lodashStringToArray env"]
          truncate_symbols[of token "lodashStringToArray env"]
          truncate_plain_length[of token "lodashStringToArray env"]
    by (cases "hasUnicode token") simp_all
  have report: "ec \<noteq> 0 \<Longrightarrow>
      \<exists>cfg. commitAndSync env opts st =
               (Inl (GitPullPushError cfg (case se of None \<Rightarrow> [] | Some e \<Rightarrow> e)), st2)
           \<and> reportedDir cfg = dir opts
           \<and> reportedRemoteUrl cfg = remoteUrl opts
           \<and> reportedAccessToken cfg = lodashTruncate (lodashStringToArray env) (Some token) 24"
    using run nonzero tok by (simp add: newGitPullPushError_def)
  show ?thesis
  proof (intro conjI impI)
    assume "ec = 0"
    with run zero show "commitAndSync env opts st =
              (case getSyncState env (dir opts) defaultBranchName (loggerAsRemoteName (logger opts)) st2 of
                 (Inl e, st3) \<Rightarrow> (Inl e, st3)
               | (Inr s, st3) \<Rightarrow>
                   if s = js ''equal'' then (Inr (), st3) else (Inl (AssumeSyncError s), st3))"
      by simp
  next
    assume "ec \<noteq> 0"
    from report[OF this] obtain cfg where c:
      "commitAndSync env opts st =
         (Inl (GitPullPushError cfg (case se of None \<Rightarrow> [] | Some e \<Rightarrow> e)), st2)"
      "reportedDir cfg = dir opts" "reportedRemoteUrl cfg = remoteUrl opts"
      "reportedAccessToken cfg = lodashTruncate (lodashStringToArray env) (Some token) 24"
      by blast
    have "if hasUnicode token
                     then reportedAccessToken cfg =
                            (if length (lodashStringToArray env token) \<le> 24 then token
                             else concat (take 21 (lodashStringToArray env token)) @ js ''...'')
                     else reportedAccessToken cfg =
                            (if length token \<le> 24 then token else take 21 token @ js ''...'')
                          \<and> length (reportedAccessToken cfg) \<le> 24"
      unfolding c(4) by (rule shape)
    with c show "\<exists>cfg. commitAndSync env opts st =
                     (Inl (GitPullPushError cfg (case se of None \<Rightarrow> [] | Some e \<Rightarrow> e)), st2)
                 \<and> reportedDir cfg = dir opts
                 \<and> reportedRemoteUrl cfg = remoteUrl opts
                 \<and> reportedAccessToken cfg = lodashTruncate (lodashStringToArray env) (Some token) 24
                 \<and> (if hasUnicode token
                     then reportedAccessToken cfg =
                            (if length (lodashStringToArray env token) \<le> 24 then token
                             else concat (take 21 (lodashStringToArray env token)) @ js ''...'')
                     else reportedAccessToken cfg =
                            (if length token \<le> 24 then token else take 21 token @ js ''...'')
                          \<and> length (reportedAccessToken cfg) \<le> 24)"
      by blast
  qed
qed

text \<open>An instance: the local branch is ahead, the push fails with exit code 128, and the
  token of 31 plain characters is reported as its first 21 characters and three dots.\<close>

theorem commitAndSync_verification_witness:
  "\<exists>cfg st2.
     commitAndSync (sampleEnv aheadPushFails) sampleOptions ((), [])
       = (Inl (GitPullPushError cfg (js ''fatal: unable to access'')), st2)
     \<and> reportedDir cfg = js ''/repo''
     \<and> reportedAccessToken cfg = js ''0123456789abcdefghijk...''
     \<and> length (reportedAccessToken cfg) \<le> 24"
proof -
  let ?u = "\<lparr>email = None, gitUserName = js ''u'', branch = js ''main'',
             accessToken = Some (js ''0123456789abcdefghijklmnopqrstu'')\<rparr>"
  let ?token = "js ''0123456789abcdefghijklmnopqrstu''"
  let ?url = "js ''https://github.com/u/r''"
  let ?run = "synchronise (sampleEnv aheadPushFails) sampleOptions ?url ?token ((), [])"
  have t1: "userInfo sampleOptions = Some ?u" by (simp add: sampleOptions_def)
  have t2: "accessToken ?u = Some ?token" by simp
  have t3: "?token \<noteq> []" by (simp add: js_def)
  have u1: "remoteUrl sampleOptions = Some ?url" by (simp add: sampleOptions_def)
  have u2: "?url \<noteq> []" by (simp add: js_def)
  have "fst ?run = Inr (js ''main'', Completed 128 (Some (js ''fatal: unable to access'')))"
    by code_simp
  then have steps: "?run = (Inr (js ''main'', Completed 128 (Some (js ''fatal: unable to access''))), snd ?run)"
    by (simp add: prod_eq_iff)
  have d: "dir sampleOptions = js ''/repo''" by (simp add: sampleOptions_def)
  have plain: "\<not> hasUnicode ?token" by (simp add: hasUnicode_def js_def)
  have tr: "(if length ?token \<le> 24 then ?token else take 21 ?token @ js ''...'')
              = js ''0123456789abcdefghijk...''"
    by (simp add: js_def)
  from commitAndSync_verification[OF t1 t2 t3 u1 u2 steps sample_credentialOff] plain
  obtain cfg where c:
    "commitAndSync (sampleEnv aheadPushFails) sampleOptions ((), [])
       = (Inl (GitPullPushError cfg (js ''fatal: unable to access'')),
          snd (credentialOffCall (sampleEnv aheadPushFails) (dir sampleOptions) ?url (snd ?run)))"
    "reportedDir cfg = dir sampleOptions"
    "reportedAccessToken cfg = (if length ?token \<le> 24 then ?token else take 21 ?token @ js ''...'')"
    "length (reportedAccessToken cfg) \<le> 24"
    by auto
  from c(1) c(2)[unfolded d] c(3)[unfolded tr] c(4) show ?thesis by blast
qed

text \<open>Twenty letters and four times U+1F600, 28 code units and 24 symbols: the token is
  reported whole.\<close>

lemma truncate_astral_sample:
  "lodashTruncate codePoints
     (Some (js ''abcdefghijklmnopqrst'' @ [0xD83D, 0xDE00, 0xD83D, 0xDE00, 0xD83D, 0xDE00, 0xD83D, 0xDE00])) 24
   = js ''abcdefghijklmnopqrst'' @ [0xD83D, 0xDE00, 0xD83D, 0xDE00, 0xD83D, 0xDE00, 0xD83D, 0xDE00]"
  by (simp add: lodashTruncate_def hasUnicode_def js_def)

subsection \<open>The credential round trip (C5)\<close>

text \<open>
  C5. For every HTTPS remote URL, with or without the suffix \<open>.git\<close>, \<open>credentialOn\<close> followed
  by \<open>credentialOff\<close> leaves the remote with exactly the original URL. The user name and
  the token are without an \<open>@\<close>, as the user information of a URL is.
\<close>

theorem credential_round_trip:
  assumes https: "startsWith url httpsScheme"
      and user: "\<not> includesChar username 0x40"
      and token: "\<not> includesChar token 0x40"
  shows "credentialOff (credentialOn remotes url username token remoteName) remoteName
           = remotes(remoteName \<mapsto> url)"
proof -
  let ?rest = "drop (length httpsScheme) url"
  have u: "url = httpsScheme @ ?rest"
    using https by (metis append_take_drop_id startsWith_def)
  have colon: "js '':'' = [0x3A]" and at: "js ''@'' = [0x40]" by (simp_all add: js_def)
  have dw: "dropWhile (\<lambda>c. c \<noteq> 0x40) (username @ js '':'' @ token @ js ''@'' @ ?rest) = 0x40 # ?rest"
    using user token dropWhile_until[of "0x40" "username @ 0x3A # token" ?rest]
    by (simp add: colon at includesChar_def)
  have "stripCredential (getGitUrlWithCredential url username token) = url"
  proof -
    have "getGitUrlWithCredential url username token = httpsScheme @ username @ js '':'' @ token @ js ''@'' @ ?rest"
      using https by (simp add: getGitUrlWithCredential_def)
    moreover have "stripCredential (httpsScheme @ username @ js '':'' @ token @ js ''@'' @ ?rest) = httpsScheme @ ?rest"
      using dw by (simp add: stripCredential_def startsWith_append includesChar_def at)
    ultimately show ?thesis using u by simp
  qed
  then show ?thesis
    by (simp add: credentialOff_def credentialOn_def)
qed
text \<open>An instance, with the suffix \<open>.git\<close>.\<close>

theorem credential_round_trip_witness:
  "credentialOff
     (credentialOn Map.empty (js ''https://github.com/u/r.git'') (js ''u'') (js ''token'') (js ''origin''))
     (js ''origin'')
   = [js ''origin'' \<mapsto> js ''https://github.com/u/r.git'']"
proof -
  have h1: "startsWith (js ''https://github.com/u/r.git'') httpsScheme" by code_simp
  have h2: "\<not> includesChar (js ''u'') 0x40" by code_simp
  have h3: "\<not> includesChar (js ''token'') 0x40" by code_simp
  from credential_round_trip[OF h1 h2 h3] show ?thesis by simp
qed

subsection \<open>The interrupted operation (C6)\<close>

text \<open>
  C6. In a git repository, for every combination of the six probes, the reported
  condition starts with the base chosen by precedence (\<open>REBASE-i\<close> when the interactive
  marker is a file, else \<open>REBASE-m\<close> when \<open>rebase-merge\<close> is a directory, else each of
  \<open>AM/REBASE\<close>, \<open>MERGING\<close>, \<open>CHERRY-PICKING\<close>, \<open>BISECTING\<close> that is detected, appended in
  this order), followed by the modifiers only.
\<close>

theorem getGitRepositoryState_base:
  assumes has: "hasGit env p True st = (Inr True, st1)"
      and gd: "getGitDirectory env p st1 = (Inr gitDirectory, (w, tr))"
      and res: "getGitRepositoryState env p st = (Inr result, st')"
  shows "\<exists>modifiers.
           result =
             reportedBase
               (marker env w gitDirectory [js ''rebase-merge'', js ''interactive''] File)
               (marker env w gitDirectory [js ''rebase-merge''] Directory)
               [(marker env w gitDirectory [js ''rebase-apply''] Directory, js ''AM/REBASE''),
                (marker env w gitDirectory [js ''MERGE_HEAD''] File, js ''MERGING''),
                (marker env w gitDirectory [js ''CHERRY_PICK_HEAD''] File, js ''CHERRY-PICKING''),
                (marker env w gitDirectory [js ''BISECT_LOG''] File, js ''BISECTING'')]
             @ modifiers
         \<and> modifiers \<in> {[], js ''|BARE'', js ''|DIRTY'', js ''|BARE|DIRTY''}"
  using res
  unfolding getGitRepositoryState_def
  by (auto simp: bnd_def has gd probeMarkers_apply ret_def interruptedOperation_reportedBase js_def
           split: prod.splits sum.splits if_splits)

text \<open>An instance: a merge and a cherry-pick are both left unfinished, and both are
  reported.\<close>

theorem getGitRepositoryState_base_witness:
  "\<exists>modifiers.
     js ''MERGINGCHERRY-PICKING|DIRTY'' =
       reportedBase False False
         [(False, js ''AM/REBASE''), (True, js ''MERGING''),
          (True, js ''CHERRY-PICKING''), (False, js ''BISECTING'')]
       @ modifiers
     \<and> modifiers \<in> {[], js ''|BARE'', js ''|DIRTY'', js ''|BARE|DIRTY''}"
proof -
  let ?E = "sampleEnv untrackedWhileMerging"
  let ?P = "js ''/repo''"
  let ?has = "hasGit ?E ?P True ((), [])"
  let ?gd = "getGitDirectory ?E ?P (snd ?has)"
  let ?res = "getGitRepositoryState ?E ?P ((), [])"
  have "fst ?has = Inr True" by code_simp
  then have has: "?has = (Inr True, snd ?has)" by (simp add: prod_eq_iff)
  have "fst ?gd = Inr (js ''/repo/.git'')" by code_simp
  then have gd: "?gd = (Inr (js ''/repo/.git''), ((), snd (snd ?gd)))"
    using unit_state[of ?gd] by simp
  have "fst ?res = Inr (js ''MERGINGCHERRY-PICKING|DIRTY'')" by code_simp
  then have res: "?res = (Inr (js ''MERGINGCHERRY-PICKING|DIRTY''), snd ?res)"
    by (simp add: prod_eq_iff)
  have m: "marker ?E () (js ''/repo/.git'') [js ''rebase-merge'', js ''interactive''] File = False"
     "marker ?E () (js ''/repo/.git'') [js ''rebase-merge''] Directory = False"
     "marker ?E () (js ''/repo/.git'') [js ''rebase-apply''] Directory = False"
     "marker ?E () (js ''/repo/.git'') [js ''MERGE_HEAD''] File = True"
     "marker ?E () (js ''/repo/.git'') [js ''CHERRY_PICK_HEAD''] File = True"
     "marker ?E () (js ''/repo/.git'') [js ''BISECT_LOG''] File = False"
    by code_simp+
  from getGitRepositoryState_base[OF has gd res] show ?thesis
    unfolding m .
qed

subsection \<open>The modified files (C7)\<close>

text \<open>
  C7. The claim: for every path of the status listing in quotes and without comma and
  semicolon, every backslash with three octal digits becomes a percent-hex byte and the
  result is decoded as UTF-8, so that an escaped path decodes to the right string. The
  code on two untracked files: for the name \<open>a\<close>, byte 1, \<open>b.txt\<close>, the escape \<open>\001\<close>
  becomes \<open>%1\<close> (one hexadecimal digit), the decoder reads \<open>%1b\<close>, and the path returned is
  \<open>a\<close>, byte 27, \<open>.txt\<close>; for the name \<open>50%\<close>, three escaped bytes, \<open>.txt\<close>, the \<open>%\<close> of the name
  is read as the start of an escape and \<open>URIError\<close> is thrown.
\<close>

theorem getModifiedFileList_control_character:
  "fst (getModifiedFileList (sampleEnv (untracked quotedControlName)) (js ''/repo'') ((), []))
     = Inr [\<lparr>filePath = js ''/repo/a'' @ [0x1B] @ js ''.txt'',
             fileRelativePath = js ''a'' @ [0x1B] @ js ''.txt'',
             fileType = js ''??''\<rparr>]
   \<and> fst (getModifiedFileList (sampleEnv (untracked quotedPercentName)) (js ''/repo'') ((), []))
     = Inl URIError"
proof -
  have n: "10 \<notin> set quotedControlName" by (simp add: quotedControlName_def js_def)
  from getModifiedFileList_untracked[OF n quotedControlName_line, of "js ''/repo''"]
  have a: "fst (getModifiedFileList (sampleEnv (untracked quotedControlName)) (js ''/repo'') ((), []))
     = Inr [\<lparr>filePath = js ''/repo/a'' @ [0x1B] @ js ''.txt'',
             fileRelativePath = js ''a'' @ [0x1B] @ js ''.txt'',
             fileType = js ''??''\<rparr>]"
    by (simp add: quotedControlName_decoded js_def)
  have m: "10 \<notin> set quotedPercentName" by (simp add: quotedPercentName_def js_def)
  from getModifiedFileList_untracked[OF m quotedPercentName_line, of "js ''/repo''"]
  have b: "fst (getModifiedFileList (sampleEnv (untracked quotedPercentName)) (js ''/repo'') ((), []))
     = Inl URIError"
    by (simp add: quotedPercentName_decoded)
  from a b show ?thesis by simp
qed

subsection \<open>The dirty flag (C8)\<close>

text \<open>
  C8. In a git repository, with \<open>r\<close> the answer of \<open>git status --porcelain\<close>: the reported
  condition ends with \<open>|DIRTY\<close> if and only if some line of the listing starts with a status
  code of the pattern (untracked, added, copied, modified, renamed), and \<open>haveLocalChanges\<close>
  returns exactly that. A line ends at a line terminator, as for \<open>^\<close> with the flag \<open>m\<close>.
\<close>

theorem dirty_iff_listing_has_change:
  assumes has: "hasGit env p True st = (Inr True, st1)"
      and gd: "getGitDirectory env p st1 = (Inr gitDirectory, (w, tr))"
      and bare: "gitExec env [js ''rev-parse'', js ''--is-bare-repository'', p] p w = (Inr b, w1)"
      and status: "gitExec env [js ''status'', js ''--porcelain''] p w1 = (Inr r, w2)"
  shows "(\<exists>result tr'. getGitRepositoryState env p st = (Inr result, (w2, tr'))
            \<and> (endsWith result (js ''|DIRTY'') \<longleftrightarrow> listingHasChange (stdout r)))
       \<and> (\<forall>t. fst (haveLocalChanges env p (w1, t)) = Inr (listingHasChange (stdout r)))"
proof -
  have hl: "\<And>t. haveLocalChanges env p (w1, t) =
      (Inr (listingHasChange (stdout r)), (w2, t @ [GitExec [js ''status'', js ''--porcelain''] p]))"
    by (simp add: haveLocalChanges_def bnd_def exec_apply[OF status] ret_def
                  haveLocalChangesOfStdout_listing)
  have be: "\<And>t. GitProcess_exec env [js ''rev-parse'', js ''--is-bare-repository'', p] p (w, t) =
      (Inr b, (w1, t @ [GitExec [js ''rev-parse'', js ''--is-bare-repository'', p] p]))"
    using bare by (rule exec_apply)
  obtain flags tr1 where pm: "probeMarkers env gitDirectory (w, tr) = (Inr flags, (w, tr1))"
    using probeMarkers_apply[of env gitDirectory w tr] by blast
  have run: "getGitRepositoryState env p st =
      (Inr (interruptedOperation flags
              @ (if startsWith (stdout b) (js ''true'') then js ''|BARE'' else [])
              @ (if listingHasChange (stdout r) then js ''|DIRTY'' else [])),
       (w2, tr1 @ [GitExec [js ''rev-parse'', js ''--is-bare-repository'', p] p]
                @ [GitExec [js ''status'', js ''--porcelain''] p]))"
    unfolding getGitRepositoryState_def
    by (simp add: bnd_def has gd pm be hl ret_def)
  have suffix: "endsWith (interruptedOperation flags
              @ (if startsWith (stdout b) (js ''true'') then js ''|BARE'' else [])
              @ (if listingHasChange (stdout r) then js ''|DIRTY'' else [])) (js ''|DIRTY'')
          \<longleftrightarrow> listingHasChange (stdout r)"
  proof (cases "listingHasChange (stdout r)")
    case True
    then show ?thesis
      using endsWith_appended[of "interruptedOperation flags
              @ (if startsWith (stdout b) (js ''true'') then js ''|BARE'' else [])" "js ''|DIRTY''"]
      by simp
  next
    case False
    then show ?thesis
      using no_dirty_suffix[of flags "startsWith (stdout b) (js ''true'')"] by simp
  qed
  show ?thesis using run suffix hl by simp
qed

text \<open>An instance: the listing has the one line \<open>?? new.txt\<close> of an untracked file.\<close>

theorem dirty_iff_listing_has_change_witness:
  "(\<exists>result tr'. getGitRepositoryState (sampleEnv untrackedWhileMerging) (js ''/repo'') ((), [])
                    = (Inr result, ((), tr'))
        \<and> endsWith result (js ''|DIRTY''))
   \<and> (\<forall>t. fst (haveLocalChanges (sampleEnv untrackedWhileMerging) (js ''/repo'') ((), t)) = Inr True)"
proof -
  let ?E = "sampleEnv untrackedWhileMerging"
  let ?P = "js ''/repo''"
  let ?has = "hasGit ?E ?P True ((), [])"
  let ?gd = "getGitDirectory ?E ?P (snd ?has)"
  have "fst ?has = Inr True" by code_simp
  then have has: "?has = (Inr True, snd ?has)" by (simp add: prod_eq_iff)
  have "fst ?gd = Inr (js ''/repo/.git'')" by code_simp
  then have gd: "?gd = (Inr (js ''/repo/.git''), ((), snd (snd ?gd)))"
    using unit_state[of ?gd] by simp
  have bare: "gitExec ?E [js ''rev-parse'', js ''--is-bare-repository'', ?P] ?P ()
      = (Inr (succeeded (js ''false'' @ [0x0A] @ ?P @ [0x0A])), ())"
    by code_simp
  have status: "gitExec ?E [js ''status'', js ''--porcelain''] ?P ()
      = (Inr (succeeded (js ''?? new.txt'' @ [0x0A])), ())"
    by code_simp
  have l: "listingHasChange (stdout (succeeded (js ''?? new.txt'' @ [0x0A])))"
    by code_simp
  from dirty_iff_listing_has_change[OF has gd bare status] l show ?thesis by simp
qed

subsection \<open>Missing parameters (C9)\<close>

text \<open>
  C9. If the access token or the remote URL is undefined or the empty string,
  \<open>commitAndSync\<close> throws \<open>SyncParameterMissingError\<close> with the name of the parameter (the
  token first), and the state is the one it started in: the world is unchanged and no
  call has been made.
\<close>

theorem commitAndSync_missing_parameter:
  assumes "missing (accessTokenOf opts) \<or> missing (remoteUrl opts)"
  shows "commitAndSync env opts (w, tr) =
           (Inl (SyncParameterMissingError
                  (if missing (accessTokenOf opts) then js ''accessToken'' else js ''remoteUrl'')),
            (w, tr))"
  using assms
  by (auto simp: commitAndSync_def accessTokenOf_def missing_def throw_def split: option.splits)

text \<open>An instance: no user information at all.\<close>

theorem commitAndSync_missing_parameter_witness:
  "commitAndSync (sampleEnv cleanNoUpstream) (sampleOptions\<lparr>userInfo := None\<rparr>) ((), [])
     = (Inl (SyncParameterMissingError (js ''accessToken'')), ((), []))"
proof -
  have m: "missing (accessTokenOf (sampleOptions\<lparr>userInfo := None\<rparr>))"
    by (simp add: missing_def accessTokenOf_def)
  then have "missing (accessTokenOf (sampleOptions\<lparr>userInfo := None\<rparr>))
      \<or> missing (remoteUrl (sampleOptions\<lparr>userInfo := None\<rparr>))" by simp
  from commitAndSync_missing_parameter[OF this, of "sampleEnv cleanNoUpstream" "()" "[]"] m
  show ?thesis by simp
qed

subsection \<open>The remote name (C10)\<close>

text \<open>
  C10. With \<open>r1\<close>, \<open>r2\<close>, \<open>r3\<close> the answers of git for \<open>branch.<branch>.pushRemote\<close>,
  \<open>remote.pushDefault\<close> and \<open>branch.<branch>.remote\<close>, \<open>getRemoteName\<close> returns the first of
  them that is not blank, trimmed, and \<open>origin\<close> when all are blank; that value is not the
  empty string, and no run of \<open>getRemoteName\<close> returns the empty string.
\<close>

theorem getRemoteName_first_non_blank:
  assumes q1: "gitExec env [js ''config'', js ''--get'', js ''branch.'' @ br @ js ''.pushRemote''] d w0 = (Inr r1, w1)"
      and q2: "gitExec env [js ''config'', js ''--get'', js ''remote.pushDefault''] d w1 = (Inr r2, w2)"
      and q3: "gitExec env [js ''config'', js ''--get'', js ''branch.'' @ br @ js ''.remote''] d w2 = (Inr r3, w3)"
  shows "fst (getRemoteName env d br (w0, tr))
           = Inr (firstNonBlankOr [stdout r1, stdout r2, stdout r3] (js ''origin''))
       \<and> firstNonBlankOr [stdout r1, stdout r2, stdout r3] (js ''origin'') \<noteq> []
       \<and> (\<forall>st name st'. getRemoteName env d br st = (Inr name, st') \<longrightarrow> name \<noteq> [])"
proof -
  have e1: "GitProcess_exec env [js ''config'', js ''--get'', js ''branch.'' @ br @ js ''.pushRemote''] d (w0, tr) = (Inr r1, (w1, tr @ [GitExec [js ''config'', js ''--get'', js ''branch.'' @ br @ js ''.pushRemote''] d]))"
    using q1 by (rule exec_apply)
  have e2: "\<And>t. GitProcess_exec env [js ''config'', js ''--get'', js ''remote.pushDefault''] d (w1, t) = (Inr r2, (w2, t @ [GitExec [js ''config'', js ''--get'', js ''remote.pushDefault''] d]))"
    using q2 by (rule exec_apply)
  have e3: "\<And>t. GitProcess_exec env [js ''config'', js ''--get'', js ''branch.'' @ br @ js ''.remote''] d (w2, t) = (Inr r3, (w3, t @ [GitExec [js ''config'', js ''--get'', js ''branch.'' @ br @ js ''.remote''] d]))"
    using q3 by (rule exec_apply)
  have o: "js ''origin'' \<noteq> []" by (simp add: js_def)
  have "fst (getRemoteName env d br (w0, tr)) = Inr (firstNonBlankOr [stdout r1, stdout r2, stdout r3] (js ''origin''))"
    unfolding getRemoteName_def
    by (simp add: bnd_def e1 e2 e3 ret_def firstNonBlankOr_def trim_empty_iff)
  moreover have "firstNonBlankOr [stdout r1, stdout r2, stdout r3] (js ''origin'') \<noteq> []"
    using o by (simp add: firstNonBlankOr_def trim_empty_iff)
  moreover have "\<forall>st name st'. getRemoteName env d br st = (Inr name, st') \<longrightarrow> name \<noteq> []"
    using getRemoteName_nonempty by blast
  ultimately show ?thesis by simp
qed

text \<open>An instance: \<open>branch.main.pushRemote\<close> is a space and a newline, \<open>remote.pushDefault\<close> is
  \<open>upstream\<close> and a newline.\<close>

theorem getRemoteName_first_non_blank_witness:
  "fst (getRemoteName (sampleEnv pushDefaultSet) (js ''/repo'') (js ''main'') ((), []))
     = Inr (js ''upstream'')"
proof -
  have q1: "gitExec (sampleEnv pushDefaultSet) [js ''config'', js ''--get'', js ''branch.'' @ js ''main'' @ js ''.pushRemote''] (js ''/repo'') ()
      = (Inr (succeeded (js '' '' @ [0x0A])), ())"
    by (simp add: sampleEnv_def sampleGit_def pushDefaultSet_def cleanNoUpstream_def js_def)
  have q2: "gitExec (sampleEnv pushDefaultSet) [js ''config'', js ''--get'', js ''remote.pushDefault''] (js ''/repo'') ()
      = (Inr (succeeded (js ''upstream'' @ [0x0A])), ())"
    by (simp add: sampleEnv_def sampleGit_def pushDefaultSet_def cleanNoUpstream_def js_def)
  have q3: "gitExec (sampleEnv pushDefaultSet) [js ''config'', js ''--get'', js ''branch.'' @ js ''main'' @ js ''.remote''] (js ''/repo'') ()
      = (Inr (succeeded (js ''origin'' @ [0x0A])), ())"
    by (simp add: sampleEnv_def sampleGit_def pushDefaultSet_def cleanNoUpstream_def js_def)
  have v: "firstNonBlankOr [stdout (succeeded (js '' '' @ [0x0A])), stdout (succeeded (js ''upstream'' @ [0x0A])),
             stdout (succeeded (js ''origin'' @ [0x0A]))] (js ''origin'') = js ''upstream''"
    by (simp add: firstNonBlankOr_def blank_def trim_def succeeded_def js_simps)
  from getRemoteName_first_non_blank[OF q1 q2 q3, of "[]"] v show ?thesis by simp
qed

end
